theory Spec2Isabelle
  imports Complex_Main
begin

section \<open>Package cr: a convenience layer over a Chrome DevTools driver\<close>

text \<open>
  The repository holds two versions of package \<^verbatim>\<open>cr\<close>: \<^verbatim>\<open>src/cr.go\<close>, written
  against \<^verbatim>\<open>github.com/chromedp/chromedp\<close>, and \<^verbatim>\<open>src/unnamed/part_000\<close>, written
  against \<^verbatim>\<open>github.com/knq/chromedp\<close>. Both declare the same method names, so the
  definitions translated from \<^verbatim>\<open>cr.go\<close> keep the source's names and those translated
  from \<^verbatim>\<open>part_000\<close> carry the suffix \<open>_part_000\<close>.

  The driver is not part of the repository. It is a parameter of every operation: a
  function from the state of the world, the context of the call and the action to the
  response of the call. The world records every call and every sleep, so a driver may
  answer the same request differently at different moments. Logging (\<^verbatim>\<open>log.Printf\<close>,
  \<^verbatim>\<open>logger.Errorf\<close>) has no effect on any result and is left out; \<^verbatim>\<open>log.Fatalf\<close>, which
  ends execution, is an outcome of its own.
\<close>

subsection \<open>Durations\<close>

text \<open>
  \<^verbatim>\<open>time.Duration\<close> is an \<^verbatim>\<open>int64\<close> count of nanoseconds. It is an \<open>int\<close> here, and
  arithmetic at run time wraps around as \<^verbatim>\<open>int64\<close> does.
\<close>

type_synonym Duration = int

definition wrap64 :: "int \<Rightarrow> int" where
  "wrap64 x = (x + 2 ^ 63) mod 2 ^ 64 - 2 ^ 63"

definition Millisecond :: Duration where
  "Millisecond = 1000000"

definition Second :: Duration where
  "Second = 1000000000"

definition minTimeout :: Duration where
  "minTimeout = Second"

subsection \<open>Errors\<close>

text \<open>
  \<open>ErrNotFound\<close> is the package's sentinel. \<open>DriverError m\<close> is an error value the
  driver returned (\<open>m\<close> identifies it), \<open>NumError s e\<close> is the \<^verbatim>\<open>*strconv.NumError\<close> of
  \<^verbatim>\<open>strconv.ParseFloat\<close> on the string \<open>s\<close>.
\<close>

datatype num_err = ErrSyntax | ErrRange

datatype error = ErrNotFound | DriverError string | NumError string num_err

subsection \<open>Contexts\<close>

text \<open>
  A context is \<^verbatim>\<open>context.Background()\<close> or is derived from a parent. Every derivation
  has a cancel function, identified by a number; a context is done once its own cancel
  function or one of an ancestor has been called. The timeout of
  \<^verbatim>\<open>context.WithTimeout\<close> is kept in the context: the driver reads it.
\<close>

datatype exec_option = DefaultExecAllocatorOptions | DisableGPU | Headless | UserOption nat

datatype ctx_kind = ByCancel | ByTimeout Duration | ByAllocator "exec_option list" | ByTask

datatype Context = Background | Derived nat ctx_kind Context

fun ctx_ids :: "Context \<Rightarrow> nat list" where
  "ctx_ids Background = []"
| "ctx_ids (Derived i k parent) = i # ctx_ids parent"

subsection \<open>Actions, responses and the world\<close>

type_synonym node = nat

datatype selector_by = ByID | ByOther nat

datatype 'f action =
    cdp_Navigate string
  | cdp_Location
  | cdp_SendKeys string string
  | cdp_Click string
  | cdp_OuterHTML string
  | cdp_Attributes string
  | cdp_Evaluate string
  | cdp_MouseClickXY 'f 'f
  | cdp_MouseClickXY_int64 int int
  | cdp_MouseClickNode node
  | cdp_Nodes string
  | cdp_WaitVisible string selector_by
  | cdp_Screenshot string selector_by
  | fullScreenshot string int
  | cdp_Shutdown
  | cdp_Wait
  | cdp_New
  | UserAction nat
  | cdp_Tasks "'f action list"

text \<open>
  The response of a call: the error it returned (\<open>None\<close> is \<^verbatim>\<open>nil\<close>) and the values
  of the variables the action was given a pointer to, as they are after the call.
\<close>

record response =
  r_err :: "string option"
  r_string :: string
  r_nodes :: "node list"
  r_attrs :: "(string \<times> string) list"
  r_bytes :: "nat list"

datatype 'f event = Slept Duration | Ran Context "'f action" response

record 'f world =
  cancelled :: "nat set"
  next_id :: nat
  events :: "'f event list"

type_synonym 'f driver = "'f world \<Rightarrow> Context \<Rightarrow> 'f action \<Rightarrow> response"

definition ctx_done :: "'f world \<Rightarrow> Context \<Rightarrow> bool" where
  "ctx_done w c = list_ex (\<lambda>i. i \<in> cancelled w) (ctx_ids c)"

definition cancel :: "nat \<Rightarrow> 'f world \<Rightarrow> 'f world" where
  "cancel i w = w\<lparr>cancelled := insert i (cancelled w)\<rparr>"

definition derive :: "ctx_kind \<Rightarrow> Context \<Rightarrow> 'f world \<Rightarrow> (Context \<times> nat) \<times> 'f world" where
  "derive k parent w =
     ((Derived (next_id w) k parent, next_id w), w\<lparr>next_id := Suc (next_id w)\<rparr>)"

definition WithCancel :: "Context \<Rightarrow> 'f world \<Rightarrow> (Context \<times> nat) \<times> 'f world" where
  "WithCancel parent w = derive ByCancel parent w"

definition WithTimeout :: "Context \<Rightarrow> Duration \<Rightarrow> 'f world \<Rightarrow> (Context \<times> nat) \<times> 'f world" where
  "WithTimeout parent d w = derive (ByTimeout d) parent w"

definition NewExecAllocator ::
  "Context \<Rightarrow> exec_option list \<Rightarrow> 'f world \<Rightarrow> (Context \<times> nat) \<times> 'f world" where
  "NewExecAllocator parent opts w = derive (ByAllocator opts) parent w"

definition NewContext :: "Context \<Rightarrow> 'f world \<Rightarrow> (Context \<times> nat) \<times> 'f world" where
  "NewContext parent w = derive ByTask parent w"

definition Run :: "'f driver \<Rightarrow> Context \<Rightarrow> 'f action \<Rightarrow> 'f world \<Rightarrow> response \<times> 'f world" where
  "Run drv c a w = (let r = drv w c a in (r, w\<lparr>events := events w @ [Ran c a r]\<rparr>))"

definition Sleep :: "Duration \<Rightarrow> 'f world \<Rightarrow> 'f world" where
  "Sleep d w = w\<lparr>events := events w @ [Slept d]\<rparr>"

definition err_of :: "response \<Rightarrow> error option" where
  "err_of r = map_option DriverError (r_err r)"

text \<open>What a call added to the record of the world, and how to read it.\<close>

definition new_events :: "'f world \<Rightarrow> 'f world \<Rightarrow> 'f event list" where
  "new_events w w' = drop (length (events w)) (events w')"

fun responses :: "'f event list \<Rightarrow> response list" where
  "responses [] = []"
| "responses (Slept d # es) = responses es"
| "responses (Ran c a r # es) = r # responses es"

fun sleeps :: "'f event list \<Rightarrow> Duration list" where
  "sleeps [] = []"
| "sleeps (Slept d # es) = d # sleeps es"
| "sleeps (Ran c a r # es) = sleeps es"

fun calls :: "'f event list \<Rightarrow> (Context \<times> 'f action) list" where
  "calls [] = []"
| "calls (Slept d # es) = calls es"
| "calls (Ran c a r # es) = (c, a) # calls es"

definition found :: "response \<Rightarrow> bool" where
  "found r = (r_err r = None \<and> r_nodes r \<noteq> [])"

subsection \<open>src/cr.go\<close>

record browser =
  ctx :: Context
  cancelCtx :: nat
  timeout :: Duration
  taskCtx :: Context

text \<open>
  The fields \<^verbatim>\<open>ctx\<close>, \<^verbatim>\<open>cancelCtx\<close> and \<^verbatim>\<open>taskCtx\<close> are written by \<^verbatim>\<open>New\<close> alone, all
  three together and only when \<^verbatim>\<open>cdp.Run\<close> has succeeded. A \<^verbatim>\<open>*Browser\<close> therefore holds
  either all of them or none: \<open>Initialised b\<close> is the struct with the fields \<open>b\<close>,
  \<open>Uninitialised t\<close> the struct whose context and cancel function are \<^verbatim>\<open>nil\<close> and whose
  timeout is \<open>t\<close>, as \<^verbatim>\<open>New\<close> returns it beside an error. A call that may panic has a
  result of type \<open>returns\<close>. The methods other than \<open>Close\<close> are modelled on the fields
  of an initialised struct.
\<close>

datatype Browser = Uninitialised Duration | Initialised browser

datatype 'a returns = Panics | Returns 'a

text \<open>
  \<open>New\<close>: the two deferred cancel functions run when it returns, the later one first.
  When \<^verbatim>\<open>cdp.Run\<close> fails it returns the error beside the struct it has built so far.
\<close>

definition New ::
  "'f driver \<Rightarrow> exec_option list \<Rightarrow> 'f world \<Rightarrow> (Browser \<times> error option) \<times> 'f world" where
  "New drv args w0 =
     (let timeout0 = Second * 5;
          ((ctx0, cancel0), w1) = WithTimeout Background timeout0 w0;
          options = [DefaultExecAllocatorOptions, DisableGPU, Headless] @ args;
          ((allocCtx, allocCancel), w2) = NewExecAllocator ctx0 options w1;
          ((taskCtx0, taskCancel), w3) = NewContext allocCtx w2;
          (r, w4) = Run drv taskCtx0 (cdp_Tasks []) w3
      in case err_of r of
           Some e \<Rightarrow>
             ((Uninitialised timeout0, Some e),
              cancel allocCancel (cancel taskCancel (cancel cancel0 w4)))
         | None \<Rightarrow>
             ((Initialised
                 \<lparr>ctx = taskCtx0, cancelCtx = cancel0, timeout = timeout0, taskCtx = taskCtx0\<rparr>,
               None),
              cancel allocCancel (cancel taskCancel w4)))"

definition SetTimeout :: "Duration \<Rightarrow> browser \<Rightarrow> browser" where
  "SetTimeout d b = b\<lparr>timeout := (if d < minTimeout then minTimeout else d)\<rparr>"

text \<open>
  \<open>Close\<close> calls \<^verbatim>\<open>b.cancelCtx\<close>; calling a \<^verbatim>\<open>nil\<close> function panics.
\<close>

fun Close :: "Browser \<Rightarrow> 'f world \<Rightarrow> (error option \<times> 'f world) returns" where
  "Close (Uninitialised t) w = Panics"
| "Close (Initialised b) w = Returns (None, cancel (cancelCtx b) w)"

definition RunAction :: "'f driver \<Rightarrow> browser \<Rightarrow> 'f action \<Rightarrow> 'f world \<Rightarrow> error option \<times> 'f world" where
  "RunAction drv b a w = (let (r, w') = Run drv (ctx b) a w in (err_of r, w'))"

definition RunTasks ::
  "'f driver \<Rightarrow> browser \<Rightarrow> 'f action list \<Rightarrow> 'f world \<Rightarrow> error option \<times> 'f world" where
  "RunTasks drv b actions w = (let (r, w') = Run drv (ctx b) (cdp_Tasks actions) w in (err_of r, w'))"

text \<open>
  \<open>RunTaskWithOther\<close> returns the error of the call; the model returns the whole
  response, so that \<open>Location\<close> can read the variable its action was given.
\<close>

definition RunTaskWithOther ::
  "'f driver \<Rightarrow> browser \<Rightarrow> 'f action \<Rightarrow> 'f action list \<Rightarrow> 'f world \<Rightarrow> response \<times> 'f world" where
  "RunTaskWithOther drv b a otherActions w = Run drv (ctx b) (cdp_Tasks ([a] @ otherActions)) w"

definition Navigate ::
  "'f driver \<Rightarrow> browser \<Rightarrow> string \<Rightarrow> 'f action list \<Rightarrow> 'f world \<Rightarrow> error option \<times> 'f world" where
  "Navigate drv b url otherActions w =
     (let (r, w') = RunTaskWithOther drv b (cdp_Navigate url) otherActions w in (err_of r, w'))"

text \<open>
  The \<^verbatim>\<open>Must\<close> variants call \<^verbatim>\<open>log.Fatalf\<close> on an error, which ends execution: they
  return nothing to the caller then.
\<close>

datatype must_result = Returned | Fatalf error

definition MustNavigate ::
  "'f driver \<Rightarrow> browser \<Rightarrow> string \<Rightarrow> 'f action list \<Rightarrow> 'f world \<Rightarrow> must_result \<times> 'f world" where
  "MustNavigate drv b url otherActions w =
     (case Navigate drv b url otherActions w of
        (Some e, w') \<Rightarrow> (Fatalf e, w')
      | (None, w') \<Rightarrow> (Returned, w'))"

definition Location ::
  "'f driver \<Rightarrow> browser \<Rightarrow> 'f action list \<Rightarrow> 'f world \<Rightarrow> (string \<times> error option) \<times> 'f world" where
  "Location drv b otherActions w =
     (let (r, w') = RunTaskWithOther drv b cdp_Location otherActions w
      in ((r_string r, err_of r), w'))"

definition SendKeys ::
  "'f driver \<Rightarrow> browser \<Rightarrow> string \<Rightarrow> string \<Rightarrow> 'f world \<Rightarrow> error option \<times> 'f world" where
  "SendKeys drv b xpath v w =
     (let (r, w') = Run drv (ctx b) (cdp_SendKeys xpath v) w in (err_of r, w'))"

definition MustSendKeys ::
  "'f driver \<Rightarrow> browser \<Rightarrow> string \<Rightarrow> string \<Rightarrow> 'f world \<Rightarrow> must_result \<times> 'f world" where
  "MustSendKeys drv b xpath v w =
     (case SendKeys drv b xpath v w of
        (Some e, w') \<Rightarrow> (Fatalf e, w')
      | (None, w') \<Rightarrow> (Returned, w'))"

definition Click :: "'f driver \<Rightarrow> browser \<Rightarrow> string \<Rightarrow> 'f world \<Rightarrow> error option \<times> 'f world" where
  "Click drv b xpath w = (let (r, w') = Run drv (ctx b) (cdp_Click xpath) w in (err_of r, w'))"

definition MustClick :: "'f driver \<Rightarrow> browser \<Rightarrow> string \<Rightarrow> 'f world \<Rightarrow> must_result \<times> 'f world" where
  "MustClick drv b xpath w =
     (case Click drv b xpath w of
        (Some e, w') \<Rightarrow> (Fatalf e, w')
      | (None, w') \<Rightarrow> (Returned, w'))"

definition GetSource ::
  "'f driver \<Rightarrow> browser \<Rightarrow> 'f world \<Rightarrow> (string \<times> error option) \<times> 'f world" where
  "GetSource drv b w =
     (let (r, w') = Run drv (ctx b) (cdp_OuterHTML ''html'') w in ((r_string r, err_of r), w'))"

definition GetAttributes ::
  "'f driver \<Rightarrow> browser \<Rightarrow> string \<Rightarrow> 'f world \<Rightarrow> ((string \<times> string) list \<times> error option) \<times> 'f world" where
  "GetAttributes drv b xpath w =
     (let (r, w') = Run drv (ctx b) (cdp_Attributes xpath) w in ((r_attrs r, err_of r), w'))"

text \<open>
  \<^verbatim>\<open>strings.Split(s, ":")\<close>, for a separator of one character: the pieces between the
  separators, one more than there are separators.
\<close>

fun Split :: "string \<Rightarrow> char \<Rightarrow> string list" where
  "Split [] sep = [[]]"
| "Split (c # cs) sep =
     (if c = sep then [] # Split cs sep
      else (case Split cs sep of p # ps \<Rightarrow> (c # p) # ps | [] \<Rightarrow> [[c]]))"

text \<open>
  \<^verbatim>\<open>fmt.Sprintf(topLeftJS, xpath)\<close>: the script with the XPath expression in the place
  of \<^verbatim>\<open>%s\<close> (the line breaks and indentation of the script are written as single
  spaces).
\<close>

definition Sprintf_topLeftJS :: "string \<Rightarrow> string" where
  \<open>Sprintf_topLeftJS xpath =
     '' function getTopLeft() { var element = document.evaluate("'' @ xpath @
     ''",document, null, XPathResult.FIRST_ORDERED_NODE_TYPE, null ).singleNodeValue; '' @
     ''var rect = element.getBoundingClientRect(); return rect.top + ":" + rect.left; } '' @
     ''(function main() { return getTopLeft(); })(); ''\<close>

text \<open>
  \<open>GetTopLeft\<close>. \<^verbatim>\<open>strconv.ParseFloat\<close> is a parameter, and so is the type \<open>'f\<close> of
  \<^verbatim>\<open>float64\<close> with its \<open>0\<close>, \<open>1\<close> and \<open>+\<close>. The error of the call is overwritten by
  the results of the two parses when the result has two parts.
\<close>

definition GetTopLeft ::
  "(string \<Rightarrow> num_err + 'f) \<Rightarrow> 'f driver \<Rightarrow> browser \<Rightarrow> string \<Rightarrow> 'f world
     \<Rightarrow> (('f::{zero,one,plus}) \<times> 'f \<times> error option) \<times> 'f world" where
  "GetTopLeft ParseFloat drv b xpath w =
     (let js = Sprintf_topLeftJS xpath;
          (r, w') = Run drv (ctx b) (cdp_Evaluate js) w;
          result = r_string r;
          err = err_of r;
          parts = Split result CHR '':''
      in if length parts = 2 then
           (case ParseFloat (parts ! 0) of
              Inl e \<Rightarrow> ((0, 0, Some (NumError (parts ! 0) e)), w')
            | Inr topv \<Rightarrow>
                (case ParseFloat (parts ! 1) of
                   Inl e \<Rightarrow> ((0, 0, Some (NumError (parts ! 1) e)), w')
                 | Inr leftv \<Rightarrow> ((topv + 1, leftv + 1, None), w')))
         else ((0 + 1, 0 + 1, err), w'))"

definition ClickByXY ::
  "(string \<Rightarrow> num_err + 'f) \<Rightarrow> 'f driver \<Rightarrow> browser \<Rightarrow> string \<Rightarrow> ('f::{zero,one,plus}) world
     \<Rightarrow> error option \<times> 'f world" where
  "ClickByXY ParseFloat drv b xpath w =
     (case GetTopLeft ParseFloat drv b xpath w of
        ((x, y, Some e), w') \<Rightarrow> (Some e, w')
      | ((x, y, None), w') \<Rightarrow>
          (let (r, w'') = Run drv (ctx b) (cdp_MouseClickXY x y) w' in (err_of r, w'')))"

definition ElementScreenshot ::
  "'f driver \<Rightarrow> browser \<Rightarrow> string \<Rightarrow> string \<Rightarrow> selector_by list \<Rightarrow> 'f world
     \<Rightarrow> (nat list \<times> error option) \<times> 'f world" where
  "ElementScreenshot drv b urlStr selectionElem by_opts w =
     (let byType = (if length by_opts > 0 then by_opts ! 0 else ByID);
          (r, w') = Run drv (ctx b)
            (cdp_Tasks [cdp_Navigate urlStr, cdp_WaitVisible selectionElem byType,
                        cdp_Screenshot selectionElem byType]) w
      in ((r_bytes r, err_of r), w'))"

definition Screenshot ::
  "'f driver \<Rightarrow> browser \<Rightarrow> string \<Rightarrow> int \<Rightarrow> 'f world \<Rightarrow> (nat list \<times> error option) \<times> 'f world" where
  "Screenshot drv b urlStr quality w =
     (let (r, w') = Run drv (ctx b) (fullScreenshot urlStr quality) w
      in ((r_bytes r, err_of r), w'))"

text \<open>
  \<open>GetNodes\<close> runs the lookup under a context of its own, derived from the handle's
  with the handle's timeout, and cancels it when it returns (the deferred call).
\<close>

definition GetNodes ::
  "'f driver \<Rightarrow> browser \<Rightarrow> string \<Rightarrow> 'f world \<Rightarrow> (node list \<times> error option) \<times> 'f world" where
  "GetNodes drv b xpath w =
     (let ((c, cancel_c), w1) = WithTimeout (ctx b) (timeout b) w;
          (r, w2) = Run drv c (cdp_Nodes xpath) w1
      in ((r_nodes r, err_of r), cancel cancel_c w2))"

definition FindElement :: "'f driver \<Rightarrow> browser \<Rightarrow> string \<Rightarrow> 'f world \<Rightarrow> error option \<times> 'f world" where
  "FindElement drv b xpath w =
     (case GetNodes drv b xpath w of
        ((nodes, Some e), w') \<Rightarrow> (Some e, w')
      | ((nodes, None), w') \<Rightarrow> (if length nodes > 0 then (None, w') else (Some ErrNotFound, w')))"

subsection \<open>src/unnamed/part_000\<close>

text \<open>
  The handle of this version has no timeout. Its \<^verbatim>\<open>cdp\<close> field is the driver
  instance; the calls \<^verbatim>\<open>b.cdp.Run(b.ctx, a)\<close>, \<^verbatim>\<open>b.cdp.Shutdown(b.ctx)\<close> and
  \<^verbatim>\<open>b.cdp.Wait()\<close> are calls of the driver (\<^verbatim>\<open>Wait\<close> takes no context: it is run
  under \<open>Background\<close>). The methods of this version are modelled on a struct whose
  fields are set; of a failed \<^verbatim>\<open>New\<close>, which returns a struct with no field set beside its
  error, the model keeps the error.
\<close>

record browser_part_000 =
  ctx_part_000 :: Context
  cancelContext :: nat

definition New_part_000 :: "'f driver \<Rightarrow> 'f world \<Rightarrow> (error + browser_part_000) \<times> 'f world" where
  "New_part_000 drv w0 =
     (let ((ctx0, cancel0), w1) = WithCancel Background w0;
          (r, w2) = Run drv ctx0 cdp_New w1
      in case err_of r of
           Some e \<Rightarrow> (Inl e, w2)
         | None \<Rightarrow> (Inr \<lparr>ctx_part_000 = ctx0, cancelContext = cancel0\<rparr>, w2))"

definition Close_part_000 ::
  "'f driver \<Rightarrow> browser_part_000 \<Rightarrow> 'f world \<Rightarrow> error option \<times> 'f world" where
  "Close_part_000 drv b w =
     (let w1 = cancel (cancelContext b) w;
          (r, w2) = Run drv (ctx_part_000 b) cdp_Shutdown w1
      in if err_of r = None then (None, w2)
         else (let (r', w3) = Run drv Background cdp_Wait w2 in (err_of r', w3)))"

definition Navigate_part_000 ::
  "'f driver \<Rightarrow> browser_part_000 \<Rightarrow> string \<Rightarrow> 'f world \<Rightarrow> error option \<times> 'f world" where
  "Navigate_part_000 drv b url w =
     (let (r, w') = Run drv (ctx_part_000 b) (cdp_Navigate url) w in (err_of r, w'))"

definition Location_part_000 ::
  "'f driver \<Rightarrow> browser_part_000 \<Rightarrow> 'f world \<Rightarrow> (string \<times> error option) \<times> 'f world" where
  "Location_part_000 drv b w =
     (let (r, w') = Run drv (ctx_part_000 b) cdp_Location w in ((r_string r, err_of r), w'))"

definition GetNodes_part_000 ::
  "'f driver \<Rightarrow> browser_part_000 \<Rightarrow> string \<Rightarrow> 'f world \<Rightarrow> (node list \<times> error option) \<times> 'f world" where
  "GetNodes_part_000 drv b xpath w =
     (let (r, w') = Run drv (ctx_part_000 b) (cdp_Nodes xpath) w in ((r_nodes r, err_of r), w'))"

text \<open>
  The polling loop of \<^verbatim>\<open>FindElement\<close>: \<open>i\<close> and \<open>wait\<close> are the loop's variables. The
  \<^verbatim>\<open>continue\<close> of the error branch skips the doubling of \<open>wait\<close>.
\<close>

function FindElement_loop ::
  "'f driver \<Rightarrow> browser_part_000 \<Rightarrow> string \<Rightarrow> nat \<Rightarrow> Duration \<Rightarrow> 'f world \<Rightarrow> error option \<times> 'f world" where
  "FindElement_loop drv b xpath i wait w =
     (if i < 8 then
        (let w1 = Sleep wait w;
             ((nodes, err), w2) = GetNodes_part_000 drv b xpath w1
         in if err \<noteq> None then FindElement_loop drv b xpath (i + 1) wait w2
            else if length nodes > 0 then (None, w2)
            else FindElement_loop drv b xpath (i + 1) (wrap64 (wait * 2)) w2)
      else (Some ErrNotFound, w))"
  by pat_completeness auto
termination
  by (relation "measure (\<lambda>(drv, b, xpath, i, wait, w). 8 - i)") auto

declare FindElement_loop.simps [simp del]

definition FindElement_part_000 ::
  "'f driver \<Rightarrow> browser_part_000 \<Rightarrow> string \<Rightarrow> 'f world \<Rightarrow> error option \<times> 'f world" where
  "FindElement_part_000 drv b xpath w = FindElement_loop drv b xpath 0 (Millisecond * 100) w"

definition SendKeys_part_000 ::
  "'f driver \<Rightarrow> browser_part_000 \<Rightarrow> string \<Rightarrow> string \<Rightarrow> 'f world \<Rightarrow> error option \<times> 'f world" where
  "SendKeys_part_000 drv b xpath v w =
     (case FindElement_part_000 drv b xpath w of
        (Some e, w1) \<Rightarrow> (Some e, w1)
      | (None, w1) \<Rightarrow>
          (let (r, w2) = Run drv (ctx_part_000 b) (cdp_SendKeys xpath v) w1 in (err_of r, w2)))"

definition Click_part_000 ::
  "'f driver \<Rightarrow> browser_part_000 \<Rightarrow> string \<Rightarrow> 'f world \<Rightarrow> error option \<times> 'f world" where
  "Click_part_000 drv b xpath w =
     (case FindElement_part_000 drv b xpath w of
        (Some e, w1) \<Rightarrow> (Some e, w1)
      | (None, w1) \<Rightarrow>
          (let (r, w2) = Run drv (ctx_part_000 b) (cdp_Click xpath) w1 in (err_of r, w2)))"

definition GetSource_part_000 ::
  "'f driver \<Rightarrow> browser_part_000 \<Rightarrow> 'f world \<Rightarrow> (string \<times> error option) \<times> 'f world" where
  "GetSource_part_000 drv b w =
     (let (r, w') = Run drv (ctx_part_000 b) (cdp_OuterHTML ''/*'') w
      in ((r_string r, err_of r), w'))"

definition GetAttributes_part_000 ::
  "'f driver \<Rightarrow> browser_part_000 \<Rightarrow> string \<Rightarrow> 'f world
     \<Rightarrow> ((string \<times> string) list \<times> error option) \<times> 'f world" where
  "GetAttributes_part_000 drv b xpath w =
     (case FindElement_part_000 drv b xpath w of
        (Some e, w1) \<Rightarrow> (([], Some e), w1)
      | (None, w1) \<Rightarrow>
          (let (r, w2) = Run drv (ctx_part_000 b) (cdp_Attributes xpath) w1
           in ((r_attrs r, err_of r), w2)))"

text \<open>
  \<open>GetTopLeft\<close> of this version looks the element up first and returns \<^verbatim>\<open>int64\<close>
  coordinates; the conversion \<^verbatim>\<open>int64(top)\<close> of a \<^verbatim>\<open>float64\<close> is a parameter.
\<close>

definition GetTopLeft_part_000 ::
  "(string \<Rightarrow> num_err + 'f) \<Rightarrow> ('f \<Rightarrow> int) \<Rightarrow> 'f driver \<Rightarrow> browser_part_000 \<Rightarrow> string
     \<Rightarrow> ('f::zero) world \<Rightarrow> (int \<times> int \<times> error option) \<times> 'f world" where
  "GetTopLeft_part_000 ParseFloat int64_of drv b xpath w =
     (case FindElement_part_000 drv b xpath w of
        (Some e, w1) \<Rightarrow> ((0, 0, Some e), w1)
      | (None, w1) \<Rightarrow>
          (let js = Sprintf_topLeftJS xpath;
               (r, w2) = Run drv (ctx_part_000 b) (cdp_Evaluate js) w1;
               result = r_string r;
               err = err_of r;
               parts = Split result CHR '':''
           in if length parts = 2 then
                (case ParseFloat (parts ! 0) of
                   Inl e \<Rightarrow> ((0, 0, Some (NumError (parts ! 0) e)), w2)
                 | Inr topv \<Rightarrow>
                     (case ParseFloat (parts ! 1) of
                        Inl e \<Rightarrow> ((0, 0, Some (NumError (parts ! 1) e)), w2)
                      | Inr leftv \<Rightarrow>
                          ((wrap64 (int64_of topv + 1), wrap64 (int64_of leftv + 1), None), w2)))
              else ((wrap64 (int64_of 0 + 1), wrap64 (int64_of 0 + 1), err), w2)))"

definition ClickByXY_part_000 ::
  "(string \<Rightarrow> num_err + 'f) \<Rightarrow> ('f \<Rightarrow> int) \<Rightarrow> 'f driver \<Rightarrow> browser_part_000 \<Rightarrow> string
     \<Rightarrow> ('f::zero) world \<Rightarrow> error option \<times> 'f world" where
  "ClickByXY_part_000 ParseFloat int64_of drv b xpath w =
     (case FindElement_part_000 drv b xpath w of
        (Some e, w1) \<Rightarrow> (Some e, w1)
      | (None, w1) \<Rightarrow>
          (let w2 = Sleep (Second * 5) w1 in
           case GetTopLeft_part_000 ParseFloat int64_of drv b xpath w2 of
             ((x, y, Some e), w3) \<Rightarrow> (Some e, w3)
           | ((x, y, None), w3) \<Rightarrow>
               (let (r, w4) = Run drv (ctx_part_000 b) (cdp_MouseClickXY_int64 x y) w3
                in (err_of r, w4))))"

text \<open>
  \<open>ClickNode\<close>: up to five rounds of sleep, lookup and clicks. The error of a click is
  overwritten by the \<^verbatim>\<open>err = nil\<close> that follows the inner loop.
\<close>

fun click_nodes :: "'f driver \<Rightarrow> browser_part_000 \<Rightarrow> node list \<Rightarrow> 'f world \<Rightarrow> 'f world" where
  "click_nodes drv b [] w = w"
| "click_nodes drv b (n # ns) w =
     click_nodes drv b ns (snd (Run drv (ctx_part_000 b) (cdp_MouseClickNode n) w))"

function ClickNode_loop ::
  "'f driver \<Rightarrow> browser_part_000 \<Rightarrow> string \<Rightarrow> nat \<Rightarrow> error option \<Rightarrow> 'f world \<Rightarrow> error option \<times> 'f world" where
  "ClickNode_loop drv b xpath i err w =
     (if i < 5 then
        (let w1 = Sleep Second w in
         case FindElement_part_000 drv b xpath w1 of
           (Some e, w2) \<Rightarrow> ClickNode_loop drv b xpath (i + 1) (Some e) w2
         | (None, w2) \<Rightarrow>
             (case GetNodes_part_000 drv b xpath w2 of
                ((nodes, Some e), w3) \<Rightarrow> ClickNode_loop drv b xpath (i + 1) (Some e) w3
              | ((nodes, None), w3) \<Rightarrow>
                  if length nodes < 1 then ClickNode_loop drv b xpath (i + 1) (Some ErrNotFound) w3
                  else (None, click_nodes drv b nodes w3)))
      else (err, w))"
  by pat_completeness auto
termination
  by (relation "measure (\<lambda>(drv, b, xpath, i, err, w). 5 - i)") auto

declare ClickNode_loop.simps [simp del]

definition ClickNode_part_000 ::
  "'f driver \<Rightarrow> browser_part_000 \<Rightarrow> string \<Rightarrow> 'f world \<Rightarrow> error option \<times> 'f world" where
  "ClickNode_part_000 drv b xpath w = ClickNode_loop drv b xpath 0 None w"

subsection \<open>Reading the record of a call\<close>

text \<open>
  The events a run of the polling loop adds to the record when the driver answers its
  lookups with \<open>rs\<close>, and the waits alone: a wait before every lookup, doubled after a
  lookup that returned no error.
\<close>

fun poll_events :: "Context \<Rightarrow> string \<Rightarrow> Duration \<Rightarrow> response list \<Rightarrow> 'f event list" where
  "poll_events c x wait [] = []"
| "poll_events c x wait (r # rs) =
     Slept wait # Ran c (cdp_Nodes x) r #
     poll_events c x (if r_err r = None then wrap64 (wait * 2) else wait) rs"

fun backoff :: "Duration \<Rightarrow> response list \<Rightarrow> Duration list" where
  "backoff wait [] = []"
| "backoff wait (r # rs) = wait # backoff (if r_err r = None then wrap64 (wait * 2) else wait) rs"

text \<open>The responses to the lookups of one call of \<open>FindElement\<close>, and the waits of one call.\<close>

definition lookups_part_000 :: "'f driver \<Rightarrow> browser_part_000 \<Rightarrow> string \<Rightarrow> 'f world \<Rightarrow> response list" where
  "lookups_part_000 drv b x w = responses (new_events w (snd (FindElement_part_000 drv b x w)))"

definition waits_part_000 :: "'f driver \<Rightarrow> browser_part_000 \<Rightarrow> string \<Rightarrow> 'f world \<Rightarrow> Duration list" where
  "waits_part_000 drv b x w = sleeps (new_events w (snd (FindElement_part_000 drv b x w)))"

definition lookups :: "'f driver \<Rightarrow> browser \<Rightarrow> string \<Rightarrow> 'f world \<Rightarrow> response list" where
  "lookups drv b x w = responses (new_events w (snd (FindElement drv b x w)))"

subsection \<open>The contract of the driver\<close>

text \<open>
  What the operations rely on after \<open>Close\<close>. The driver is outside the repository; its
  contract is a hypothesis wherever it is used: a call under a context that is done
  returns an error and leaves the variables it was given unset.
\<close>

definition fails_when_done :: "'f driver \<Rightarrow> bool" where
  "fails_when_done drv =
     (\<forall>w c a. ctx_done w c \<longrightarrow> r_err (drv w c a) \<noteq> None \<and> r_string (drv w c a) = [])"

subsection \<open>Sample worlds, drivers and handles\<close>

text \<open>
  Concrete inputs for the examples: an empty world; a driver that answers every call
  with no error and nothing found, one that fails every call, one whose third answer
  holds a node, one that fails exactly the calls under a context that is done and
  answers the others with a node and the coordinates \<^verbatim>\<open>10.5:20\<close>, one whose
  answer is no pair of coordinates, and one whose evaluation of a script stores the
  coordinates and then fails; a handle as each \<open>New\<close> builds it.
\<close>

definition w_init :: "real world" where
  "w_init = \<lparr>cancelled = {}, next_id = 3, events = []\<rparr>"

definition empty_response :: response where
  "empty_response = \<lparr>r_err = None, r_string = [], r_nodes = [], r_attrs = [], r_bytes = []\<rparr>"

definition drv_absent :: "real driver" where
  "drv_absent w c a = empty_response"

definition drv_failing :: "real driver" where
  "drv_failing w c a = empty_response\<lparr>r_err := Some ''context deadline exceeded''\<rparr>"

definition drv_third :: "real driver" where
  "drv_third w c a =
     (if 2 \<le> length (responses (events w)) then empty_response\<lparr>r_nodes := [7]\<rparr>
      else empty_response)"

definition drv_page :: "real driver" where
  "drv_page w c a =
     (if ctx_done w c then empty_response\<lparr>r_err := Some ''context canceled''\<rparr>
      else empty_response\<lparr>r_string := ''10.5:20'', r_nodes := [7]\<rparr>)"

definition drv_malformed :: "real driver" where
  "drv_malformed w c a = empty_response\<lparr>r_string := ''10.5;20''\<rparr>"

definition drv_stale :: "real driver" where
  "drv_stale w c a =
     (case a of
        cdp_Evaluate js \<Rightarrow>
          empty_response\<lparr>r_err := Some ''context deadline exceeded'', r_string := ''10.5:20''\<rparr>
      | _ \<Rightarrow> empty_response)"

definition b_sample :: browser where
  "b_sample =
     \<lparr>ctx = Derived 2 ByTask (Derived 1 (ByAllocator [DefaultExecAllocatorOptions, DisableGPU, Headless])
              (Derived 0 (ByTimeout 5000000000) Background)),
      cancelCtx = 0, timeout = 5000000000,
      taskCtx = Derived 2 ByTask (Derived 1 (ByAllocator [DefaultExecAllocatorOptions, DisableGPU, Headless])
              (Derived 0 (ByTimeout 5000000000) Background))\<rparr>"

definition b_sample_part_000 :: browser_part_000 where
  "b_sample_part_000 = \<lparr>ctx_part_000 = Derived 0 ByCancel Background, cancelContext = 0\<rparr>"

text \<open>
  The values of \<^verbatim>\<open>strconv.ParseFloat\<close> at the strings of the examples, and the
  conversion to \<^verbatim>\<open>int64\<close>, which truncates.
\<close>

definition ParseFloat_sample :: "string \<Rightarrow> num_err + real" where
  "ParseFloat_sample s =
     (if s = ''10.5'' then Inr 10.5 else if s = ''20'' then Inr 20 else Inl ErrSyntax)"

definition int64_sample :: "real \<Rightarrow> int" where
  "int64_sample v = (if 0 \<le> v then \<lfloor>v\<rfloor> else \<lceil>v\<rceil>)"

section \<open>Properties\<close>

subsection \<open>Basic facts\<close>

lemma err_of_None [simp]: "(err_of r = None) = (r_err r = None)"
  by (simp add: err_of_def)

lemma err_of_Some [simp]: "(err_of r = Some e) = (\<exists>m. r_err r = Some m \<and> e = DriverError m)"
  by (auto simp: err_of_def)

lemma Split_no_sep: "sep \<notin> set s \<Longrightarrow> Split s sep = [s]"
  by (induction s) auto

lemma Split_not_Nil [simp]: "Split s sep \<noteq> []"
  by (induction s) (auto split: list.splits)

lemma length_Split: "length (Split s sep) = Suc (count_list s sep)"
  by (induction s) (auto split: list.splits)

lemma wrap64_id: "- (2 ^ 63) \<le> x \<Longrightarrow> x < 2 ^ 63 \<Longrightarrow> wrap64 x = x"
  by (simp add: wrap64_def)

lemma no_wrap_step:
  assumes "0 < wait" and "wait * 2 ^ Suc n \<le> 2 ^ 62"
  shows "wrap64 (wait * 2) = wait * 2"
proof -
  have "(1::int) \<le> 2 ^ n"
    by simp
  then have "wait * 2 * 1 \<le> wait * 2 * 2 ^ n"
    using assms(1) by (intro mult_left_mono) auto
  then have "wait * 2 \<le> 2 ^ 62"
    using assms(2) by (simp add: mult.assoc)
  then show ?thesis
    using assms(1) by (intro wrap64_id) auto
qed

subsection \<open>The polling loop\<close>

text \<open>
  One run of the loop from round \<open>i\<close>: it adds the events of \<open>poll_events\<close> for the
  responses \<open>rs\<close> it got, at most \<open>8 - i\<close> of them; none but the last found a node; it
  returns \<^verbatim>\<open>nil\<close> when the last one did and \<open>ErrNotFound\<close> after \<open>8 - i\<close> lookups
  otherwise.
\<close>

lemma FindElement_loop_trace:
  "\<exists>rs. events (snd (FindElement_loop drv b x i wait w)) = events w @ poll_events (ctx_part_000 b) x wait rs
     \<and> cancelled (snd (FindElement_loop drv b x i wait w)) = cancelled w
     \<and> next_id (snd (FindElement_loop drv b x i wait w)) = next_id w
     \<and> length rs \<le> 8 - i
     \<and> (\<forall>r \<in> set (butlast rs). \<not> found r)
     \<and> (\<forall>r \<in> set rs. \<exists>w1. cancelled w1 = cancelled w \<and> r = drv w1 (ctx_part_000 b) (cdp_Nodes x))
     \<and> (if rs \<noteq> [] \<and> found (last rs) then fst (FindElement_loop drv b x i wait w) = None
         else fst (FindElement_loop drv b x i wait w) = Some ErrNotFound \<and> length rs = 8 - i)"
proof (induction drv b x i wait w rule: FindElement_loop.induct)
  case (1 drv b xpath i wait w)
  show ?case
  proof (cases "i < 8")
    case False
    then have "FindElement_loop drv b xpath i wait w = (Some ErrNotFound, w)"
      by (simp add: FindElement_loop.simps)
    then show ?thesis
      using False by (intro exI [of _ "[]"]) simp
  next
    case True
    define w1 where "w1 = Sleep wait w"
    define r where "r = drv w1 (ctx_part_000 b) (cdp_Nodes xpath)"
    define w2 where "w2 = w1\<lparr>events := events w1 @ [Ran (ctx_part_000 b) (cdp_Nodes xpath) r]\<rparr>"
    have g: "GetNodes_part_000 drv b xpath w1 = ((r_nodes r, err_of r), w2)"
      by (simp add: GetNodes_part_000_def Run_def Let_def r_def w2_def)
    have ev2: "events w2 = events w @ [Slept wait, Ran (ctx_part_000 b) (cdp_Nodes xpath) r]"
      and c2: "cancelled w2 = cancelled w" and n2: "next_id w2 = next_id w"
      by (simp_all add: w2_def w1_def Sleep_def)
    have c1: "cancelled w1 = cancelled w"
      by (simp add: w1_def Sleep_def)
    have from_drv: "\<exists>w1. cancelled w1 = cancelled w \<and> r = drv w1 (ctx_part_000 b) (cdp_Nodes xpath)"
      using c1 r_def by blast
    consider (err) "r_err r \<noteq> None" | (hit) "found r" | (miss) "r_err r = None" "r_nodes r = []"
      unfolding found_def by (cases "r_err r"; cases "r_nodes r") auto
    then show ?thesis
    proof cases
      case err
      have eq: "FindElement_loop drv b xpath i wait w = FindElement_loop drv b xpath (i + 1) wait w2"
        using True err g by (subst FindElement_loop.simps) (auto simp: w1_def [symmetric])
      have ne: "err_of r \<noteq> None"
        using err by simp
      from "1.IH"(1) [OF True refl refl g [unfolded w1_def, symmetric] refl ne, of w2]
      obtain rs where rs: "events (snd (FindElement_loop drv b xpath (i + 1) wait w2)) =
            events w2 @ poll_events (ctx_part_000 b) xpath wait rs"
          "cancelled (snd (FindElement_loop drv b xpath (i + 1) wait w2)) = cancelled w2"
          "next_id (snd (FindElement_loop drv b xpath (i + 1) wait w2)) = next_id w2"
          "length rs \<le> 8 - (i + 1)"
          "\<forall>r \<in> set (butlast rs). \<not> found r"
          "\<forall>r \<in> set rs. \<exists>w1. cancelled w1 = cancelled w2 \<and> r = drv w1 (ctx_part_000 b) (cdp_Nodes xpath)"
          "if rs \<noteq> [] \<and> found (last rs) then fst (FindElement_loop drv b xpath (i + 1) wait w2) = None
           else fst (FindElement_loop drv b xpath (i + 1) wait w2) = Some ErrNotFound \<and> length rs = 8 - (i + 1)"
        by auto
      have nf: "\<not> found r"
        using err by (simp add: found_def)
      show ?thesis
        using rs True nf err from_drv
        by (intro exI [of _ "r # rs"]) (auto simp: eq ev2 c2 n2 split: if_splits)
    next
      case hit
      have eq: "FindElement_loop drv b xpath i wait w = (None, w2)"
        using True hit g by (subst FindElement_loop.simps) (auto simp: w1_def [symmetric] found_def)
      show ?thesis
        using True hit from_drv by (intro exI [of _ "[r]"]) (auto simp: eq ev2 c2 n2 found_def)
    next
      case miss
      have eq: "FindElement_loop drv b xpath i wait w =
          FindElement_loop drv b xpath (i + 1) (wrap64 (wait * 2)) w2"
        using True miss g by (subst FindElement_loop.simps) (auto simp: w1_def [symmetric])
      have e1: "\<not> err_of r \<noteq> None" and e2: "\<not> 0 < length (r_nodes r)"
        using miss by simp_all
      from "1.IH"(2) [OF True refl refl g [unfolded w1_def, symmetric] refl e1 e2, of w2]
      obtain rs where rs: "events (snd (FindElement_loop drv b xpath (i + 1) (wrap64 (wait * 2)) w2)) =
            events w2 @ poll_events (ctx_part_000 b) xpath (wrap64 (wait * 2)) rs"
          "cancelled (snd (FindElement_loop drv b xpath (i + 1) (wrap64 (wait * 2)) w2)) = cancelled w2"
          "next_id (snd (FindElement_loop drv b xpath (i + 1) (wrap64 (wait * 2)) w2)) = next_id w2"
          "length rs \<le> 8 - (i + 1)"
          "\<forall>r \<in> set (butlast rs). \<not> found r"
          "\<forall>r \<in> set rs. \<exists>w1. cancelled w1 = cancelled w2 \<and> r = drv w1 (ctx_part_000 b) (cdp_Nodes xpath)"
          "if rs \<noteq> [] \<and> found (last rs)
           then fst (FindElement_loop drv b xpath (i + 1) (wrap64 (wait * 2)) w2) = None
           else fst (FindElement_loop drv b xpath (i + 1) (wrap64 (wait * 2)) w2) = Some ErrNotFound
                \<and> length rs = 8 - (i + 1)"
        by auto
      have nf: "\<not> found r"
        using miss by (simp add: found_def)
      show ?thesis
        using rs True nf miss from_drv
        by (intro exI [of _ "r # rs"]) (auto simp: eq ev2 c2 n2 split: if_splits)
    qed
  qed
qed

lemma responses_poll_events [simp]: "responses (poll_events c x wait rs) = rs"
  by (induction rs arbitrary: wait) simp_all

lemma sleeps_poll_events [simp]: "sleeps (poll_events c x wait rs) = backoff wait rs"
  by (induction rs arbitrary: wait) simp_all

lemma calls_poll_events [simp]:
  "calls (poll_events c x wait rs) = replicate (length rs) (c, cdp_Nodes x)"
  by (induction rs arbitrary: wait) simp_all

lemma length_backoff [simp]: "length (backoff wait rs) = length rs"
  by (induction rs arbitrary: wait) simp_all

lemma backoff_hd: "rs \<noteq> [] \<Longrightarrow> backoff wait rs ! 0 = wait"
  by (cases rs) simp_all

lemma backoff_step:
  "0 < wait \<Longrightarrow> wait * 2 ^ length rs \<le> 2 ^ 62 \<Longrightarrow> Suc j < length rs \<Longrightarrow>
   backoff wait rs ! Suc j =
     (if r_err (rs ! j) = None then 2 * (backoff wait rs ! j) else backoff wait rs ! j)"
proof (induction rs arbitrary: wait j)
  case Nil
  then show ?case by simp
next
  case (Cons r rs)
  define wait' where "wait' = (if r_err r = None then wrap64 (wait * 2) else wait)"
  have nowrap: "wrap64 (wait * 2) = wait * 2"
    using Cons.prems(1,2) by (intro no_wrap_step [of wait "length rs"]) auto
  have w': "wait' = (if r_err r = None then wait * 2 else wait)"
    by (simp add: wait'_def nowrap)
  have pos: "0 < wait'"
    using Cons.prems(1) by (simp add: w')
  have "wait' * 2 ^ length rs \<le> (wait * 2) * 2 ^ length rs"
    using Cons.prems(1) by (intro mult_right_mono) (auto simp: w')
  also have "\<dots> = wait * 2 ^ length (r # rs)"
    by simp
  also have "\<dots> \<le> 2 ^ 62"
    by (rule Cons.prems(2))
  finally have bnd: "wait' * 2 ^ length rs \<le> 2 ^ 62" .
  have rs_ne: "rs \<noteq> []"
    using Cons.prems(3) by auto
  show ?case
  proof (cases j)
    case 0
    then show ?thesis
      using rs_ne backoff_hd [of rs wait'] by (simp add: wait'_def [symmetric] w')
  next
    case (Suc k)
    then have "Suc k < length rs"
      using Cons.prems(3) by simp
    from Cons.IH [OF pos bnd this] Suc show ?thesis
      by (simp add: wait'_def [symmetric])
  qed
qed

lemma backoff_sum:
  "0 < wait \<Longrightarrow> wait * 2 ^ length rs \<le> 2 ^ 62 \<Longrightarrow>
   sum_list (backoff wait rs) \<le> wait * (2 ^ length rs - 1)"
proof (induction rs arbitrary: wait)
  case Nil
  then show ?case by simp
next
  case (Cons r rs)
  define wait' where "wait' = (if r_err r = None then wrap64 (wait * 2) else wait)"
  have nowrap: "wrap64 (wait * 2) = wait * 2"
    using Cons.prems(1,2) by (intro no_wrap_step [of wait "length rs"]) auto
  have w': "wait' = (if r_err r = None then wait * 2 else wait)"
    by (simp add: wait'_def nowrap)
  have pos: "0 < wait'" and le2: "wait' \<le> wait * 2"
    using Cons.prems(1) by (simp_all add: w')
  have "wait' * 2 ^ length rs \<le> (wait * 2) * 2 ^ length rs"
    using le2 by (intro mult_right_mono) auto
  also have "\<dots> = wait * 2 ^ length (r # rs)"
    by simp
  also have "\<dots> \<le> 2 ^ 62"
    by (rule Cons.prems(2))
  finally have bnd: "wait' * 2 ^ length rs \<le> 2 ^ 62" .
  have "sum_list (backoff wait' rs) \<le> wait' * (2 ^ length rs - 1)"
    by (rule Cons.IH [OF pos bnd])
  also have "\<dots> \<le> (wait * 2) * (2 ^ length rs - 1)"
    using le2 by (intro mult_right_mono) auto
  finally show ?case
    by (simp add: wait'_def [symmetric] algebra_simps)
qed


lemma none_found_iff:
  assumes "rs \<noteq> []" and "\<forall>r \<in> set (butlast rs). \<not> found r"
  shows "(\<forall>r \<in> set rs. \<not> found r) \<longleftrightarrow> \<not> found (last rs)"
proof
  assume "\<forall>r \<in> set rs. \<not> found r"
  then show "\<not> found (last rs)"
    using assms(1) by simp
next
  assume l: "\<not> found (last rs)"
  show "\<forall>r \<in> set rs. \<not> found r"
  proof
    fix r assume "r \<in> set rs"
    then have "r \<in> set (butlast rs @ [last rs])"
      using assms(1) by simp
    then show "\<not> found r"
      using assms(2) l by auto
  qed
qed

lemma FindElement_part_000_summary:
  obtains rs where
    "new_events w (snd (FindElement_part_000 drv b x w)) = poll_events (ctx_part_000 b) x (Millisecond * 100) rs"
    "lookups_part_000 drv b x w = rs"
    "waits_part_000 drv b x w = backoff (Millisecond * 100) rs"
    "cancelled (snd (FindElement_part_000 drv b x w)) = cancelled w"
    "next_id (snd (FindElement_part_000 drv b x w)) = next_id w"
    "1 \<le> length rs" "length rs \<le> 8"
    "\<forall>r \<in> set (butlast rs). \<not> found r"
    "\<forall>r \<in> set rs. \<exists>w1. cancelled w1 = cancelled w \<and> r = drv w1 (ctx_part_000 b) (cdp_Nodes x)"
    "if found (last rs) then fst (FindElement_part_000 drv b x w) = None
     else fst (FindElement_part_000 drv b x w) = Some ErrNotFound \<and> length rs = 8"
proof -
  from FindElement_loop_trace [of drv b x 0 "Millisecond * 100" w]
  obtain rs where rs:
    "events (snd (FindElement_part_000 drv b x w)) = events w @ poll_events (ctx_part_000 b) x (Millisecond * 100) rs"
    "cancelled (snd (FindElement_part_000 drv b x w)) = cancelled w"
    "next_id (snd (FindElement_part_000 drv b x w)) = next_id w"
    "length rs \<le> 8"
    "\<forall>r \<in> set (butlast rs). \<not> found r"
    "\<forall>r \<in> set rs. \<exists>w1. cancelled w1 = cancelled w \<and> r = drv w1 (ctx_part_000 b) (cdp_Nodes x)"
    "if rs \<noteq> [] \<and> found (last rs) then fst (FindElement_part_000 drv b x w) = None
     else fst (FindElement_part_000 drv b x w) = Some ErrNotFound \<and> length rs = 8 - 0"
    unfolding FindElement_part_000_def by auto
  have ne: "rs \<noteq> []"
    using rs(7) by (auto split: if_splits)
  have new: "new_events w (snd (FindElement_part_000 drv b x w)) =
      poll_events (ctx_part_000 b) x (Millisecond * 100) rs"
    by (simp add: new_events_def rs(1))
  show thesis
  proof (rule that [of rs])
    show "new_events w (snd (FindElement_part_000 drv b x w)) =
        poll_events (ctx_part_000 b) x (Millisecond * 100) rs"
      by (rule new)
    show "lookups_part_000 drv b x w = rs"
      by (simp add: lookups_part_000_def new)
    show "waits_part_000 drv b x w = backoff (Millisecond * 100) rs"
      by (simp add: waits_part_000_def new)
    show "1 \<le> length rs"
      using ne by (cases rs) simp_all
    show "if found (last rs) then fst (FindElement_part_000 drv b x w) = None
      else fst (FindElement_part_000 drv b x w) = Some ErrNotFound \<and> length rs = 8"
      using rs(7) ne by (simp split: if_splits)
  qed (use rs in simp_all)
qed

lemma lookups_single:
  "\<exists>r. lookups drv b x w = [r]
     \<and> r = drv (snd (WithTimeout (ctx b) (timeout b) w)) (fst (fst (WithTimeout (ctx b) (timeout b) w))) (cdp_Nodes x)
     \<and> fst (FindElement drv b x w) =
         (case r_err r of Some m \<Rightarrow> Some (DriverError m)
          | None \<Rightarrow> if r_nodes r \<noteq> [] then None else Some ErrNotFound)"
  by (auto simp: lookups_def FindElement_def GetNodes_def WithTimeout_def derive_def Run_def cancel_def
      new_events_def Let_def err_of_def split: option.splits)

text \<open>
  C1 (amended). \<open>FindElement\<close> of \<^verbatim>\<open>part_000\<close> returns \<open>ErrNotFound\<close> exactly when it
  has made 8 lookups of the XPath expression and none of them found a node; when the
  driver never finds a node it does so. \<open>FindElement\<close> of \<^verbatim>\<open>cr.go\<close> makes one lookup,
  and returns \<open>ErrNotFound\<close> exactly when that lookup returned no error and no node.
\<close>

theorem FindElement_ErrNotFound_after_attempts:
  "(fst (FindElement_part_000 drv bp x w) = Some ErrNotFound \<longleftrightarrow>
      length (lookups_part_000 drv bp x w) = 8 \<and> (\<forall>r \<in> set (lookups_part_000 drv bp x w). \<not> found r))
   \<and> ((\<forall>w1. \<not> found (drv w1 (ctx_part_000 bp) (cdp_Nodes x))) \<longrightarrow>
        fst (FindElement_part_000 drv bp x w) = Some ErrNotFound \<and> length (lookups_part_000 drv bp x w) = 8)
   \<and> calls (new_events w (snd (FindElement_part_000 drv bp x w))) =
        replicate (length (lookups_part_000 drv bp x w)) (ctx_part_000 bp, cdp_Nodes x)
   \<and> length (lookups drv b x w) = 1
   \<and> (fst (FindElement drv b x w) = Some ErrNotFound \<longleftrightarrow>
        r_err (hd (lookups drv b x w)) = None \<and> r_nodes (hd (lookups drv b x w)) = [])"
proof -
  obtain rs where rs:
    "new_events w (snd (FindElement_part_000 drv bp x w)) = poll_events (ctx_part_000 bp) x (Millisecond * 100) rs"
    "lookups_part_000 drv bp x w = rs"
    "1 \<le> length rs" "length rs \<le> 8"
    "\<forall>r \<in> set (butlast rs). \<not> found r"
    "\<forall>r \<in> set rs. \<exists>w1. cancelled w1 = cancelled w \<and> r = drv w1 (ctx_part_000 bp) (cdp_Nodes x)"
    "if found (last rs) then fst (FindElement_part_000 drv bp x w) = None
     else fst (FindElement_part_000 drv bp x w) = Some ErrNotFound \<and> length rs = 8"
    by (rule FindElement_part_000_summary [of w drv bp x])
  have ne: "rs \<noteq> []"
    using rs(3) by auto
  have all: "(\<forall>r \<in> set rs. \<not> found r) \<longleftrightarrow> \<not> found (last rs)"
    using ne rs(5) by (rule none_found_iff)
  have a: "fst (FindElement_part_000 drv bp x w) = Some ErrNotFound \<longleftrightarrow>
      length rs = 8 \<and> (\<forall>r \<in> set rs. \<not> found r)"
    using rs(7) all by (auto split: if_splits)
  have b: "(\<forall>w1. \<not> found (drv w1 (ctx_part_000 bp) (cdp_Nodes x))) \<longrightarrow>
        fst (FindElement_part_000 drv bp x w) = Some ErrNotFound \<and> length rs = 8"
  proof
    assume h: "\<forall>w1. \<not> found (drv w1 (ctx_part_000 bp) (cdp_Nodes x))"
    have "\<forall>r \<in> set rs. \<not> found r"
      using rs(6) h by metis
    then have "\<not> found (last rs)"
      using all by simp
    then show "fst (FindElement_part_000 drv bp x w) = Some ErrNotFound \<and> length rs = 8"
      using rs(7) by simp
  qed
  obtain r where r: "lookups drv b x w = [r]"
    "fst (FindElement drv b x w) =
         (case r_err r of Some m \<Rightarrow> Some (DriverError m)
          | None \<Rightarrow> if r_nodes r \<noteq> [] then None else Some ErrNotFound)"
    using lookups_single [of drv b x w] by blast
  have c: "fst (FindElement drv b x w) = Some ErrNotFound \<longleftrightarrow>
        r_err (hd (lookups drv b x w)) = None \<and> r_nodes (hd (lookups drv b x w)) = []"
    by (simp add: r split: option.splits)
  show ?thesis
    using a b c by (simp add: rs(1,2) r(1))
qed


text \<open>
  As C1 is stated it fails for \<^verbatim>\<open>cr.go\<close>: on a page where the node never appears,
  \<open>FindElement\<close> returns \<open>ErrNotFound\<close> after a single lookup.
\<close>

theorem FindElement_single_lookup_counterexample:
  "fst (FindElement drv_absent b_sample ''//a'' w_init) = Some ErrNotFound
   \<and> length (lookups drv_absent b_sample ''//a'' w_init) = 1"
  by (simp add: lookups_def FindElement_def GetNodes_def WithTimeout_def derive_def Run_def cancel_def
      new_events_def Let_def err_of_def drv_absent_def empty_response_def w_init_def b_sample_def)

theorem FindElement_ErrNotFound_after_attempts_witness:
  "fst (FindElement_part_000 drv_absent b_sample_part_000 ''//a'' w_init) = Some ErrNotFound
   \<and> length (lookups_part_000 drv_absent b_sample_part_000 ''//a'' w_init) = 8
   \<and> length (lookups drv_absent b_sample ''//a'' w_init) = 1"
proof -
  have h: "\<forall>w1. \<not> found (drv_absent w1 (ctx_part_000 b_sample_part_000) (cdp_Nodes ''//a''))"
    by (simp add: drv_absent_def found_def empty_response_def)
  show ?thesis
    using FindElement_ErrNotFound_after_attempts
      [where drv = drv_absent and bp = b_sample_part_000 and x = "''//a''" and w = w_init and b = b_sample]
      h
    by blast
qed

text \<open>
  C3. When a lookup of a call of \<open>FindElement\<close> finds a node, the call returns \<^verbatim>\<open>nil\<close>,
  that lookup is the last one of the call and the first that found a node. The polling
  version makes between one and 8 lookups and gives up only after 8 that found
  nothing; the version of \<^verbatim>\<open>cr.go\<close> makes its one lookup.
\<close>

theorem FindElement_first_success:
  "(\<forall>j. j < length (lookups_part_000 drv bp x w) \<and> found (lookups_part_000 drv bp x w ! j) \<longrightarrow>
        fst (FindElement_part_000 drv bp x w) = None
        \<and> Suc j = length (lookups_part_000 drv bp x w)
        \<and> (\<forall>i<j. \<not> found (lookups_part_000 drv bp x w ! i)))
   \<and> 1 \<le> length (lookups_part_000 drv bp x w) \<and> length (lookups_part_000 drv bp x w) \<le> 8
   \<and> (fst (FindElement_part_000 drv bp x w) \<noteq> None \<longrightarrow>
        length (lookups_part_000 drv bp x w) = 8
        \<and> (\<forall>r \<in> set (lookups_part_000 drv bp x w). \<not> found r))
   \<and> length (lookups drv b x w) = 1
   \<and> (found (lookups drv b x w ! 0) \<longrightarrow> fst (FindElement drv b x w) = None)"
proof -
  obtain rs where rs:
    "lookups_part_000 drv bp x w = rs"
    "1 \<le> length rs" "length rs \<le> 8"
    "\<forall>r \<in> set (butlast rs). \<not> found r"
    "if found (last rs) then fst (FindElement_part_000 drv bp x w) = None
     else fst (FindElement_part_000 drv bp x w) = Some ErrNotFound \<and> length rs = 8"
    by (rule FindElement_part_000_summary [of w drv bp x])
  have ne: "rs \<noteq> []"
    using rs(2) by auto
  have early: "\<not> found (rs ! i)" if "Suc i < length rs" for i
  proof -
    have "rs ! i = butlast rs ! i"
      using that by (simp add: nth_butlast)
    moreover have "butlast rs ! i \<in> set (butlast rs)"
      using that by (intro nth_mem) simp
    ultimately show ?thesis
      using rs(4) by simp
  qed
  have lst: "last rs = rs ! (length rs - 1)"
    using ne by (rule last_conv_nth)
  have a: "fst (FindElement_part_000 drv bp x w) = None \<and> Suc j = length rs \<and> (\<forall>i<j. \<not> found (rs ! i))"
    if "j < length rs" "found (rs ! j)" for j
  proof -
    have "\<not> Suc j < length rs"
      using early [of j] that(2) by blast
    then have j: "Suc j = length rs"
      using that(1) by simp
    then have "found (last rs)"
      using that(2) lst by (metis diff_Suc_1)
    then have "fst (FindElement_part_000 drv bp x w) = None"
      using rs(5) by simp
    moreover have "\<forall>i<j. \<not> found (rs ! i)"
      using early j by simp
    ultimately show ?thesis
      using j by simp
  qed
  have all: "\<forall>r \<in> set rs. \<not> found r" if "\<not> found (last rs)"
    using none_found_iff [OF ne rs(4)] that by simp
  have b: "fst (FindElement_part_000 drv bp x w) \<noteq> None \<longrightarrow>
      length rs = 8 \<and> (\<forall>r \<in> set rs. \<not> found r)"
    using rs(5) all by (auto split: if_splits)
  obtain r where r: "lookups drv b x w = [r]"
    "fst (FindElement drv b x w) =
         (case r_err r of Some m \<Rightarrow> Some (DriverError m)
          | None \<Rightarrow> if r_nodes r \<noteq> [] then None else Some ErrNotFound)"
    using lookups_single [of drv b x w] by blast
  have c: "found (lookups drv b x w ! 0) \<longrightarrow> fst (FindElement drv b x w) = None"
    by (simp add: r found_def)
  have d: "length (lookups drv b x w) = 1"
    by (simp add: r(1))
  show ?thesis
    unfolding rs(1)
    using a b c d rs(2,3) by blast
qed

lemma lookups_drv_third:
  "lookups_part_000 drv_third b_sample_part_000 ''//a'' w_init =
     [empty_response, empty_response, empty_response\<lparr>r_nodes := [7]\<rparr>]"
  by (simp add: lookups_part_000_def FindElement_part_000_def FindElement_loop.simps
      GetNodes_part_000_def Run_def Sleep_def Let_def new_events_def drv_third_def w_init_def
      empty_response_def b_sample_part_000_def)

theorem FindElement_first_success_witness:
  "found (lookups_part_000 drv_third b_sample_part_000 ''//a'' w_init ! 2)
   \<and> fst (FindElement_part_000 drv_third b_sample_part_000 ''//a'' w_init) = None
   \<and> length (lookups_part_000 drv_third b_sample_part_000 ''//a'' w_init) = 3
   \<and> \<not> found (lookups_part_000 drv_third b_sample_part_000 ''//a'' w_init ! 0)
   \<and> \<not> found (lookups_part_000 drv_third b_sample_part_000 ''//a'' w_init ! 1)"
proof -
  have h: "2 < length (lookups_part_000 drv_third b_sample_part_000 ''//a'' w_init)
      \<and> found (lookups_part_000 drv_third b_sample_part_000 ''//a'' w_init ! 2)"
    by (simp add: lookups_drv_third found_def empty_response_def)
  have "fst (FindElement_part_000 drv_third b_sample_part_000 ''//a'' w_init) = None
      \<and> Suc 2 = length (lookups_part_000 drv_third b_sample_part_000 ''//a'' w_init)
      \<and> (\<forall>i<2. \<not> found (lookups_part_000 drv_third b_sample_part_000 ''//a'' w_init ! i))"
    using FindElement_first_success
      [where drv = drv_third and bp = b_sample_part_000 and x = "''//a''" and w = w_init and b = b_sample]
      h
    by blast
  then show ?thesis
    using h by (simp add: numeral_2_eq_2 less_Suc_eq)
qed

subsection \<open>The waits of the polling loop\<close>

lemma poll_events_nth:
  "j < length rs \<Longrightarrow>
   poll_events c x wait rs ! (2 * j) = Slept (backoff wait rs ! j)
   \<and> poll_events c x wait rs ! (2 * j + 1) = Ran c (cdp_Nodes x) (rs ! j)"
proof (induction rs arbitrary: wait j)
  case Nil
  then show ?case by simp
next
  case (Cons r rs)
  show ?case
  proof (cases j)
    case 0
    then show ?thesis by simp
  next
    case (Suc k)
    then have "k < length rs"
      using Cons.prems by simp
    from Cons.IH [OF this] Suc show ?thesis
      by simp
  qed
qed

lemma length_poll_events [simp]: "length (poll_events c x wait rs) = 2 * length rs"
  by (induction rs arbitrary: wait) simp_all

text \<open>
  C2 (amended). In a call of the polling \<open>FindElement\<close> every lookup comes after a wait.
  The first wait is 100 milliseconds; the wait after a lookup that returned no error
  is twice the one before it, and the wait after a lookup that returned an error is the
  same as the one before it. The waits of a call add up to at most 25.5 seconds.
\<close>

theorem FindElement_part_000_backoff:
  "length (waits_part_000 drv bp x w) = length (lookups_part_000 drv bp x w)
   \<and> length (new_events w (snd (FindElement_part_000 drv bp x w))) = 2 * length (lookups_part_000 drv bp x w)
   \<and> (\<forall>j < length (lookups_part_000 drv bp x w).
         new_events w (snd (FindElement_part_000 drv bp x w)) ! (2 * j) = Slept (waits_part_000 drv bp x w ! j)
         \<and> new_events w (snd (FindElement_part_000 drv bp x w)) ! (2 * j + 1) =
             Ran (ctx_part_000 bp) (cdp_Nodes x) (lookups_part_000 drv bp x w ! j))
   \<and> waits_part_000 drv bp x w ! 0 = 100 * Millisecond
   \<and> (\<forall>j. Suc j < length (waits_part_000 drv bp x w) \<longrightarrow>
         waits_part_000 drv bp x w ! Suc j =
           (if r_err (lookups_part_000 drv bp x w ! j) = None then 2 * (waits_part_000 drv bp x w ! j)
            else waits_part_000 drv bp x w ! j))
   \<and> sum_list (waits_part_000 drv bp x w) \<le> 25500 * Millisecond"
proof -
  obtain rs where rs:
    "new_events w (snd (FindElement_part_000 drv bp x w)) = poll_events (ctx_part_000 bp) x (Millisecond * 100) rs"
    "lookups_part_000 drv bp x w = rs"
    "waits_part_000 drv bp x w = backoff (Millisecond * 100) rs"
    "1 \<le> length rs" "length rs \<le> 8"
    by (rule FindElement_part_000_summary [of w drv bp x])
  have ne: "rs \<noteq> []"
    using rs(4) by auto
  have pos: "0 < Millisecond * 100"
    by (simp add: Millisecond_def)
  have "(2::int) ^ length rs \<le> 2 ^ 8"
    using rs(5) by (intro power_increasing) auto
  then have p8: "(2::int) ^ length rs \<le> 256"
    by simp
  have "Millisecond * 100 * 2 ^ length rs \<le> Millisecond * 100 * 256"
    using p8 pos by (intro mult_left_mono) auto
  also have "\<dots> \<le> 2 ^ 62"
    by (simp add: Millisecond_def)
  finally have bnd: "Millisecond * 100 * 2 ^ length rs \<le> 2 ^ 62" .
  have hd: "backoff (Millisecond * 100) rs ! 0 = 100 * Millisecond"
    using backoff_hd [OF ne, of "Millisecond * 100"] by simp
  have step: "\<forall>j. Suc j < length rs \<longrightarrow>
      backoff (Millisecond * 100) rs ! Suc j =
        (if r_err (rs ! j) = None then 2 * (backoff (Millisecond * 100) rs ! j)
         else backoff (Millisecond * 100) rs ! j)"
    using backoff_step [OF pos bnd] by blast
  have "sum_list (backoff (Millisecond * 100) rs) \<le> Millisecond * 100 * (2 ^ length rs - 1)"
    by (rule backoff_sum [OF pos bnd])
  also have "\<dots> \<le> Millisecond * 100 * (256 - 1)"
    using p8 pos by (intro mult_left_mono) auto
  also have "\<dots> = 25500 * Millisecond"
    by simp
  finally have total: "sum_list (backoff (Millisecond * 100) rs) \<le> 25500 * Millisecond" .
  have nth: "\<forall>j < length rs.
      poll_events (ctx_part_000 bp) x (Millisecond * 100) rs ! (2 * j) = Slept (backoff (Millisecond * 100) rs ! j)
      \<and> poll_events (ctx_part_000 bp) x (Millisecond * 100) rs ! (2 * j + 1) =
          Ran (ctx_part_000 bp) (cdp_Nodes x) (rs ! j)"
    using poll_events_nth by blast
  show ?thesis
    unfolding rs(1,2,3) using hd step total nth by simp
qed

text \<open>
  As C2 is stated it fails: when every lookup returns an error the wait stays at 100
  milliseconds in all eight rounds.
\<close>

theorem FindElement_part_000_no_doubling_counterexample:
  "waits_part_000 drv_failing b_sample_part_000 ''//a'' w_init =
     [100000000, 100000000, 100000000, 100000000, 100000000, 100000000, 100000000, 100000000]
   \<and> map r_err (lookups_part_000 drv_failing b_sample_part_000 ''//a'' w_init) =
     replicate 8 (Some ''context deadline exceeded'')"
  by (simp add: waits_part_000_def lookups_part_000_def FindElement_part_000_def FindElement_loop.simps
      GetNodes_part_000_def Run_def Sleep_def Let_def new_events_def drv_failing_def w_init_def
      empty_response_def b_sample_part_000_def Millisecond_def err_of_def numeral_eq_Suc)

lemma waits_drv_absent:
  "waits_part_000 drv_absent b_sample_part_000 ''//a'' w_init =
     [100000000, 200000000, 400000000, 800000000, 1600000000, 3200000000, 6400000000, 12800000000]"
  by (simp add: waits_part_000_def FindElement_part_000_def FindElement_loop.simps
      GetNodes_part_000_def Run_def Sleep_def Let_def new_events_def drv_absent_def w_init_def
      empty_response_def b_sample_part_000_def Millisecond_def err_of_def wrap64_def)


lemma lookups_drv_absent:
  "map r_err (lookups_part_000 drv_absent b_sample_part_000 ''//a'' w_init) = replicate 8 None"
  by (simp add: lookups_part_000_def FindElement_part_000_def FindElement_loop.simps
      GetNodes_part_000_def Run_def Sleep_def Let_def new_events_def drv_absent_def w_init_def
      empty_response_def b_sample_part_000_def Millisecond_def err_of_def numeral_eq_Suc)

lemma drv_failing_trace:
  "waits_part_000 drv_failing b_sample_part_000 ''//a'' w_init =
     [100000000, 100000000, 100000000, 100000000, 100000000, 100000000, 100000000, 100000000]
   \<and> map r_err (lookups_part_000 drv_failing b_sample_part_000 ''//a'' w_init) =
     replicate 8 (Some ''context deadline exceeded'')"
  by (simp add: waits_part_000_def lookups_part_000_def FindElement_part_000_def FindElement_loop.simps
      GetNodes_part_000_def Run_def Sleep_def Let_def new_events_def drv_failing_def w_init_def
      empty_response_def b_sample_part_000_def Millisecond_def err_of_def numeral_eq_Suc)

theorem FindElement_part_000_backoff_witness:
  "Suc 0 < length (waits_part_000 drv_absent b_sample_part_000 ''//a'' w_init)
   \<and> r_err (lookups_part_000 drv_absent b_sample_part_000 ''//a'' w_init ! 0) = None
   \<and> waits_part_000 drv_absent b_sample_part_000 ''//a'' w_init ! 0 = 100000000
   \<and> waits_part_000 drv_absent b_sample_part_000 ''//a'' w_init ! Suc 0 = 200000000
   \<and> sum_list (waits_part_000 drv_absent b_sample_part_000 ''//a'' w_init) \<le> 25500000000
   \<and> Suc 0 < length (waits_part_000 drv_failing b_sample_part_000 ''//a'' w_init)
   \<and> r_err (lookups_part_000 drv_failing b_sample_part_000 ''//a'' w_init ! 0) \<noteq> None
   \<and> waits_part_000 drv_failing b_sample_part_000 ''//a'' w_init ! Suc 0 = 100000000"
proof -
  note a = FindElement_part_000_backoff
    [where drv = drv_absent and bp = b_sample_part_000 and x = "''//a''" and w = w_init]
  note f = FindElement_part_000_backoff
    [where drv = drv_failing and bp = b_sample_part_000 and x = "''//a''" and w = w_init]
  have la: "Suc 0 < length (waits_part_000 drv_absent b_sample_part_000 ''//a'' w_init)"
    by (simp add: waits_drv_absent)
  have lf: "Suc 0 < length (waits_part_000 drv_failing b_sample_part_000 ''//a'' w_init)"
    using drv_failing_trace by simp
  have "length (lookups_part_000 drv_absent b_sample_part_000 ''//a'' w_init) = 8"
    using lookups_drv_absent by (metis length_map length_replicate)
  then have "r_err (lookups_part_000 drv_absent b_sample_part_000 ''//a'' w_init ! 0) =
      map r_err (lookups_part_000 drv_absent b_sample_part_000 ''//a'' w_init) ! 0"
    by simp
  then have ea: "r_err (lookups_part_000 drv_absent b_sample_part_000 ''//a'' w_init ! 0) = None"
    by (simp add: lookups_drv_absent)
  have "length (lookups_part_000 drv_failing b_sample_part_000 ''//a'' w_init) = 8"
    using drv_failing_trace by (metis length_map length_replicate)
  then have "r_err (lookups_part_000 drv_failing b_sample_part_000 ''//a'' w_init ! 0) =
      map r_err (lookups_part_000 drv_failing b_sample_part_000 ''//a'' w_init) ! 0"
    by simp
  then have ef: "r_err (lookups_part_000 drv_failing b_sample_part_000 ''//a'' w_init ! 0) \<noteq> None"
    using drv_failing_trace by simp
  have a0: "waits_part_000 drv_absent b_sample_part_000 ''//a'' w_init ! 0 = 100000000"
    using a by (simp add: Millisecond_def)
  have a1: "waits_part_000 drv_absent b_sample_part_000 ''//a'' w_init ! Suc 0 =
      2 * (waits_part_000 drv_absent b_sample_part_000 ''//a'' w_init ! 0)"
    using a la ea by presburger
  have f0: "waits_part_000 drv_failing b_sample_part_000 ''//a'' w_init ! 0 = 100000000"
    using f by (simp add: Millisecond_def)
  have f1: "waits_part_000 drv_failing b_sample_part_000 ''//a'' w_init ! Suc 0 =
      waits_part_000 drv_failing b_sample_part_000 ''//a'' w_init ! 0"
    using f lf ef by presburger
  have s: "sum_list (waits_part_000 drv_absent b_sample_part_000 ''//a'' w_init) \<le> 25500000000"
    using a by (simp add: Millisecond_def)
  show ?thesis
    using la lf ea ef a0 a1 f0 f1 s by simp
qed

subsection \<open>The errors of FindElement\<close>

lemma GetNodes_trace:
  "new_events w (snd (GetNodes drv b x w)) =
     [Ran (Derived (next_id w) (ByTimeout (timeout b)) (ctx b)) (cdp_Nodes x)
        (drv (w\<lparr>next_id := Suc (next_id w)\<rparr>) (Derived (next_id w) (ByTimeout (timeout b)) (ctx b)) (cdp_Nodes x))]
   \<and> fst (GetNodes drv b x w) =
       (r_nodes (drv (w\<lparr>next_id := Suc (next_id w)\<rparr>) (Derived (next_id w) (ByTimeout (timeout b)) (ctx b)) (cdp_Nodes x)),
        err_of (drv (w\<lparr>next_id := Suc (next_id w)\<rparr>) (Derived (next_id w) (ByTimeout (timeout b)) (ctx b)) (cdp_Nodes x)))
   \<and> cancelled (snd (GetNodes drv b x w)) = insert (next_id w) (cancelled w)
   \<and> next_id (snd (GetNodes drv b x w)) = Suc (next_id w)"
  by (simp add: GetNodes_def WithTimeout_def derive_def Run_def cancel_def new_events_def Let_def)

text \<open>
  C5. \<open>FindElement\<close> of \<^verbatim>\<open>cr.go\<close> makes one lookup. It returns \<open>ErrNotFound\<close> exactly
  when the lookup returned no error and no node, the error of the driver, as it is,
  exactly when the lookup returned one, and \<^verbatim>\<open>nil\<close> exactly when the lookup returned no
  error and a node; it returns no other error.
\<close>

theorem FindElement_error_categories:
  "length (lookups drv b x w) = 1
   \<and> (fst (FindElement drv b x w) = Some ErrNotFound \<longleftrightarrow>
        r_err (lookups drv b x w ! 0) = None \<and> r_nodes (lookups drv b x w ! 0) = [])
   \<and> (\<forall>m. r_err (lookups drv b x w ! 0) = Some m \<longleftrightarrow> fst (FindElement drv b x w) = Some (DriverError m))
   \<and> (fst (FindElement drv b x w) = None \<longleftrightarrow>
        r_err (lookups drv b x w ! 0) = None \<and> r_nodes (lookups drv b x w ! 0) \<noteq> [])
   \<and> (\<forall>e. fst (FindElement drv b x w) = Some e \<longrightarrow> e = ErrNotFound \<or> (\<exists>m. e = DriverError m))"
proof -
  obtain r where r: "lookups drv b x w = [r]"
    "fst (FindElement drv b x w) =
         (case r_err r of Some m \<Rightarrow> Some (DriverError m)
          | None \<Rightarrow> if r_nodes r \<noteq> [] then None else Some ErrNotFound)"
    using lookups_single [of drv b x w] by blast
  show ?thesis
    by (auto simp: r split: option.splits)
qed

theorem FindElement_error_categories_witness:
  "fst (FindElement drv_failing b_sample ''//a'' w_init) = Some (DriverError ''context deadline exceeded'')
   \<and> fst (FindElement drv_absent b_sample ''//a'' w_init) = Some ErrNotFound"
proof -
  have f: "lookups drv_failing b_sample ''//a'' w_init = [empty_response\<lparr>r_err := Some ''context deadline exceeded''\<rparr>]"
    by (simp add: lookups_def FindElement_def GetNodes_def WithTimeout_def derive_def Run_def cancel_def
      new_events_def Let_def err_of_def drv_failing_def empty_response_def w_init_def b_sample_def)
  have a: "lookups drv_absent b_sample ''//a'' w_init = [empty_response]"
    by (simp add: lookups_def FindElement_def GetNodes_def WithTimeout_def derive_def Run_def cancel_def
      new_events_def Let_def err_of_def drv_absent_def empty_response_def w_init_def b_sample_def)
  have "r_err (lookups drv_failing b_sample ''//a'' w_init ! 0) = Some ''context deadline exceeded''"
    by (simp add: f)
  then have 1: "fst (FindElement drv_failing b_sample ''//a'' w_init) = Some (DriverError ''context deadline exceeded'')"
    using FindElement_error_categories [where drv = drv_failing and b = b_sample and x = "''//a''" and w = w_init]
    by blast
  have "r_err (lookups drv_absent b_sample ''//a'' w_init ! 0) = None
      \<and> r_nodes (lookups drv_absent b_sample ''//a'' w_init ! 0) = []"
    by (simp add: a empty_response_def)
  then have 2: "fst (FindElement drv_absent b_sample ''//a'' w_init) = Some ErrNotFound"
    using FindElement_error_categories [where drv = drv_absent and b = b_sample and x = "''//a''" and w = w_init]
    by blast
  show ?thesis
    using 1 2 by simp
qed

subsection \<open>The context of a lookup\<close>

text \<open>
  C7. \<open>GetNodes\<close> of \<^verbatim>\<open>cr.go\<close> makes one call of the driver, a lookup under a context
  derived from the handle's context with the handle's timeout: the timeout
  \<open>SetTimeout\<close> stored. The derived context is done whenever the handle's context is,
  and it is cancelled when \<open>GetNodes\<close> returns. \<open>FindElement\<close> looks up through
  \<open>GetNodes\<close>.
\<close>

theorem GetNodes_context:
  "calls (new_events w (snd (GetNodes drv b x w))) =
     [(Derived (next_id w) (ByTimeout (timeout b)) (ctx b), cdp_Nodes x)]
   \<and> calls (new_events w (snd (GetNodes drv (SetTimeout d b) x w))) =
     [(Derived (next_id w) (ByTimeout (if Second \<le> d then d else Second)) (ctx b), cdp_Nodes x)]
   \<and> calls (new_events w (snd (FindElement drv b x w))) =
     [(Derived (next_id w) (ByTimeout (timeout b)) (ctx b), cdp_Nodes x)]
   \<and> (\<forall>w1. ctx_done w1 (ctx b) \<longrightarrow> ctx_done w1 (Derived (next_id w) (ByTimeout (timeout b)) (ctx b)))
   \<and> ctx_done (snd (GetNodes drv b x w)) (Derived (next_id w) (ByTimeout (timeout b)) (ctx b))"
  by (auto simp: GetNodes_trace FindElement_def GetNodes_def WithTimeout_def derive_def Run_def cancel_def
      new_events_def Let_def SetTimeout_def minTimeout_def ctx_done_def split: option.splits prod.splits)

theorem GetNodes_context_witness:
  "calls (new_events w_init (snd (GetNodes drv_page (SetTimeout 30000000000 b_sample) ''//a'' w_init))) =
     [(Derived 3 (ByTimeout 30000000000) (ctx b_sample), cdp_Nodes ''//a'')]
   \<and> ctx_done (w_init\<lparr>cancelled := {0}\<rparr>) (ctx b_sample)
   \<and> ctx_done (w_init\<lparr>cancelled := {0}\<rparr>) (Derived 3 (ByTimeout 5000000000) (ctx b_sample))"
proof -
  have d: "ctx_done (w_init\<lparr>cancelled := {0}\<rparr>) (ctx b_sample)"
    by (simp add: ctx_done_def b_sample_def)
  have n: "next_id w_init = 3" and t: "timeout b_sample = 5000000000"
    by (simp_all add: w_init_def b_sample_def)
  have "ctx_done (w_init\<lparr>cancelled := {0}\<rparr>) (Derived (next_id w_init) (ByTimeout (timeout b_sample)) (ctx b_sample))"
    using GetNodes_context [where w = w_init and b = b_sample] d by blast
  then have 1: "ctx_done (w_init\<lparr>cancelled := {0}\<rparr>) (Derived 3 (ByTimeout 5000000000) (ctx b_sample))"
    by (simp add: n t)
  have "calls (new_events w_init (snd (GetNodes drv_page (SetTimeout 30000000000 b_sample) ''//a'' w_init))) =
     [(Derived (next_id w_init) (ByTimeout (if Second \<le> 30000000000 then 30000000000 else Second)) (ctx b_sample),
       cdp_Nodes ''//a'')]"
    using GetNodes_context [where w = w_init and b = b_sample and d = 30000000000 and drv = drv_page and x = "''//a''"]
    by blast
  then have 2: "calls (new_events w_init (snd (GetNodes drv_page (SetTimeout 30000000000 b_sample) ''//a'' w_init))) =
     [(Derived 3 (ByTimeout 30000000000) (ctx b_sample), cdp_Nodes ''//a'')]"
    by (simp add: n Second_def)
  show ?thesis
    using d 1 2 by simp
qed

subsection \<open>Operations without a retry\<close>

lemma Navigate_once:
  "calls (new_events w (snd (Navigate drv b url others w))) = [(ctx b, cdp_Tasks (cdp_Navigate url # others))]
   \<and> fst (Navigate drv b url others w) = err_of (drv w (ctx b) (cdp_Tasks (cdp_Navigate url # others)))"
  by (simp add: Navigate_def RunTaskWithOther_def Run_def new_events_def Let_def)

lemma SendKeys_once:
  "calls (new_events w (snd (SendKeys drv b x v w))) = [(ctx b, cdp_SendKeys x v)]
   \<and> fst (SendKeys drv b x v w) = err_of (drv w (ctx b) (cdp_SendKeys x v))"
  by (simp add: SendKeys_def Run_def new_events_def Let_def)

lemma Click_once:
  "calls (new_events w (snd (Click drv b x w))) = [(ctx b, cdp_Click x)]
   \<and> fst (Click drv b x w) = err_of (drv w (ctx b) (cdp_Click x))"
  by (simp add: Click_def Run_def new_events_def Let_def)

lemma GetAttributes_once:
  "calls (new_events w (snd (GetAttributes drv b x w))) = [(ctx b, cdp_Attributes x)]
   \<and> snd (fst (GetAttributes drv b x w)) = err_of (drv w (ctx b) (cdp_Attributes x))"
  by (simp add: GetAttributes_def Run_def new_events_def Let_def)

lemma Must_variants:
  "MustNavigate drv b url others w =
     ((case fst (Navigate drv b url others w) of None \<Rightarrow> Returned | Some e \<Rightarrow> Fatalf e),
      snd (Navigate drv b url others w))"
  "MustSendKeys drv b x v w =
     ((case fst (SendKeys drv b x v w) of None \<Rightarrow> Returned | Some e \<Rightarrow> Fatalf e),
      snd (SendKeys drv b x v w))"
  "MustClick drv b x w =
     ((case fst (Click drv b x w) of None \<Rightarrow> Returned | Some e \<Rightarrow> Fatalf e), snd (Click drv b x w))"
  by (simp_all add: MustNavigate_def MustSendKeys_def MustClick_def split: prod.splits option.splits)

lemma GetTopLeft_events:
  "events (snd (GetTopLeft pf drv b x w)) =
     events w @ [Ran (ctx b) (cdp_Evaluate (Sprintf_topLeftJS x)) (drv w (ctx b) (cdp_Evaluate (Sprintf_topLeftJS x)))]"
  by (simp add: GetTopLeft_def Run_def Let_def split: sum.splits)

lemma ClickByXY_calls:
  "(case snd (snd (fst (GetTopLeft pf drv b x w))) of
      Some e \<Rightarrow>
        fst (ClickByXY pf drv b x w) = Some e
        \<and> calls (new_events w (snd (ClickByXY pf drv b x w))) = [(ctx b, cdp_Evaluate (Sprintf_topLeftJS x))]
    | None \<Rightarrow>
        calls (new_events w (snd (ClickByXY pf drv b x w))) =
          [(ctx b, cdp_Evaluate (Sprintf_topLeftJS x)),
           (ctx b, cdp_MouseClickXY (fst (fst (GetTopLeft pf drv b x w))) (fst (snd (fst (GetTopLeft pf drv b x w)))))]
        \<and> fst (ClickByXY pf drv b x w) =
            err_of (drv (snd (GetTopLeft pf drv b x w)) (ctx b)
              (cdp_MouseClickXY (fst (fst (GetTopLeft pf drv b x w))) (fst (snd (fst (GetTopLeft pf drv b x w)))))))"
proof (cases "GetTopLeft pf drv b x w")
  case (Pair res w1)
  obtain tx ty e where res: "res = (tx, ty, e)"
    by (cases res) auto
  have ev: "events w1 = events w @ [Ran (ctx b) (cdp_Evaluate (Sprintf_topLeftJS x)) (drv w (ctx b) (cdp_Evaluate (Sprintf_topLeftJS x)))]"
    using GetTopLeft_events [of pf drv b x w] Pair by simp
  show ?thesis
    by (cases e) (simp_all add: Pair res ClickByXY_def Run_def new_events_def Let_def ev)
qed

lemma ClickByXY_Evaluate_fails:
  assumes "r_err (drv w (ctx b) (cdp_Evaluate (Sprintf_topLeftJS x))) = Some m"
    and "count_list (r_string (drv w (ctx b) (cdp_Evaluate (Sprintf_topLeftJS x)))) CHR '':'' \<noteq> 1"
  shows "fst (ClickByXY pf drv b x w) = Some (DriverError m)
    \<and> calls (new_events w (snd (ClickByXY pf drv b x w))) = [(ctx b, cdp_Evaluate (Sprintf_topLeftJS x))]"
  using assms
  by (simp add: ClickByXY_def GetTopLeft_def Run_def new_events_def Let_def err_of_def length_Split)

lemma other_operations_once:
  "calls (new_events w (snd (RunAction drv b a w))) = [(ctx b, a)]
   \<and> fst (RunAction drv b a w) = err_of (drv w (ctx b) a)
   \<and> calls (new_events w (snd (RunTasks drv b others w))) = [(ctx b, cdp_Tasks others)]
   \<and> fst (RunTasks drv b others w) = err_of (drv w (ctx b) (cdp_Tasks others))
   \<and> calls (new_events w (snd (Location drv b others w))) = [(ctx b, cdp_Tasks (cdp_Location # others))]
   \<and> snd (fst (Location drv b others w)) = err_of (drv w (ctx b) (cdp_Tasks (cdp_Location # others)))
   \<and> calls (new_events w (snd (GetSource drv b w))) = [(ctx b, cdp_OuterHTML ''html'')]
   \<and> snd (fst (GetSource drv b w)) = err_of (drv w (ctx b) (cdp_OuterHTML ''html''))"
  by (simp add: RunAction_def RunTasks_def Location_def RunTaskWithOther_def GetSource_def
      Run_def new_events_def Let_def)

lemma screenshots_once:
  "calls (new_events w (snd (ElementScreenshot drv b url sel by_opts w))) =
     [(ctx b, cdp_Tasks [cdp_Navigate url,
         cdp_WaitVisible sel (if by_opts = [] then ByID else by_opts ! 0),
         cdp_Screenshot sel (if by_opts = [] then ByID else by_opts ! 0)])]
   \<and> snd (fst (ElementScreenshot drv b url sel by_opts w)) =
       err_of (drv w (ctx b) (cdp_Tasks [cdp_Navigate url,
         cdp_WaitVisible sel (if by_opts = [] then ByID else by_opts ! 0),
         cdp_Screenshot sel (if by_opts = [] then ByID else by_opts ! 0)]))
   \<and> calls (new_events w (snd (Screenshot drv b url q w))) = [(ctx b, fullScreenshot url q)]
   \<and> snd (fst (Screenshot drv b url q w)) = err_of (drv w (ctx b) (fullScreenshot url q))"
  by (simp add: ElementScreenshot_def Screenshot_def Run_def new_events_def Let_def)

lemma lookups_once:
  "calls (new_events w (snd (GetNodes drv b x w))) =
     [(Derived (next_id w) (ByTimeout (timeout b)) (ctx b), cdp_Nodes x)]
   \<and> snd (fst (GetNodes drv b x w)) =
       err_of (drv (w\<lparr>next_id := Suc (next_id w)\<rparr>)
         (Derived (next_id w) (ByTimeout (timeout b)) (ctx b)) (cdp_Nodes x))
   \<and> calls (new_events w (snd (FindElement drv b x w))) =
     [(Derived (next_id w) (ByTimeout (timeout b)) (ctx b), cdp_Nodes x)]
   \<and> fst (FindElement drv b x w) =
       (case err_of (drv (w\<lparr>next_id := Suc (next_id w)\<rparr>)
           (Derived (next_id w) (ByTimeout (timeout b)) (ctx b)) (cdp_Nodes x)) of
          Some e \<Rightarrow> Some e
        | None \<Rightarrow>
            if r_nodes (drv (w\<lparr>next_id := Suc (next_id w)\<rparr>)
                 (Derived (next_id w) (ByTimeout (timeout b)) (ctx b)) (cdp_Nodes x)) = []
            then Some ErrNotFound else None)"
proof -
  define r where "r = drv (w\<lparr>next_id := Suc (next_id w)\<rparr>)
      (Derived (next_id w) (ByTimeout (timeout b)) (ctx b)) (cdp_Nodes x)"
  have g: "GetNodes drv b x w =
      ((r_nodes r, err_of r),
       cancel (next_id w) (w\<lparr>next_id := Suc (next_id w),
         events := events w @ [Ran (Derived (next_id w) (ByTimeout (timeout b)) (ctx b)) (cdp_Nodes x) r]\<rparr>))"
    by (simp add: GetNodes_def WithTimeout_def derive_def Run_def Let_def r_def)
  have 1: "calls (new_events w (snd (GetNodes drv b x w))) =
      [(Derived (next_id w) (ByTimeout (timeout b)) (ctx b), cdp_Nodes x)]"
    by (simp add: g cancel_def new_events_def)
  have 2: "snd (fst (GetNodes drv b x w)) = err_of r"
    by (simp add: g)
  have 3: "calls (new_events w (snd (FindElement drv b x w))) =
      [(Derived (next_id w) (ByTimeout (timeout b)) (ctx b), cdp_Nodes x)]"
    by (cases "err_of r") (simp_all add: FindElement_def g cancel_def new_events_def del: err_of_None err_of_Some)
  have 4: "fst (FindElement drv b x w) =
      (case err_of r of Some e \<Rightarrow> Some e
       | None \<Rightarrow> if r_nodes r = [] then Some ErrNotFound else None)"
    by (cases "err_of r") (simp_all add: FindElement_def g del: err_of_None err_of_Some)
  show ?thesis
    using 1 2 3 4 unfolding r_def by (intro conjI)
qed

lemma GetTopLeft_once:
  "calls (new_events w (snd (GetTopLeft pf drv b x w))) = [(ctx b, cdp_Evaluate (Sprintf_topLeftJS x))]"
  by (simp add: GetTopLeft_events new_events_def)




subsection \<open>Coordinates\<close>

lemma Split_two: "sep \<notin> set a \<Longrightarrow> sep \<notin> set c \<Longrightarrow> Split (a @ sep # c) sep = [a, c]"
  by (induction a) (auto simp: Split_no_sep)

lemma GetTopLeft_two_parts:
  fixes pf :: "string \<Rightarrow> num_err + ('f::{zero,one,plus})"
  assumes "r_string (drv w (ctx b) (cdp_Evaluate (Sprintf_topLeftJS x))) = a @ '':'' @ c"
    and "CHR '':'' \<notin> set a" and "CHR '':'' \<notin> set c"
  shows "fst (GetTopLeft pf drv b x w) =
    (case pf a of Inl e \<Rightarrow> (0, 0, Some (NumError a e))
     | Inr t \<Rightarrow> (case pf c of Inl e \<Rightarrow> (0, 0, Some (NumError c e)) | Inr l \<Rightarrow> (t + 1, l + 1, None)))"
  using assms Split_two [of "CHR '':''" a c]
  by (simp add: GetTopLeft_def Run_def Let_def split: sum.splits)

lemma GetTopLeft_other:
  fixes pf :: "string \<Rightarrow> num_err + ('f::{zero,one,plus})"
  assumes "count_list (r_string (drv w (ctx b) (cdp_Evaluate (Sprintf_topLeftJS x)))) CHR '':'' \<noteq> 1"
  shows "snd (snd (fst (GetTopLeft pf drv b x w))) = err_of (drv w (ctx b) (cdp_Evaluate (Sprintf_topLeftJS x)))"
  using assms
  by (simp add: GetTopLeft_def Run_def Let_def length_Split)

lemma GetTopLeft_part_000_not_found:
  "fst (FindElement_part_000 drv bp x w) = Some e \<Longrightarrow>
   fst (GetTopLeft_part_000 pf toi drv bp x w) = (0, 0, Some e)"
  by (cases "FindElement_part_000 drv bp x w") (simp add: GetTopLeft_part_000_def)

lemma GetTopLeft_part_000_two_parts:
  fixes pf :: "string \<Rightarrow> num_err + ('f::zero)"
  assumes "fst (FindElement_part_000 drv bp x w) = None"
    and "r_string (drv (snd (FindElement_part_000 drv bp x w)) (ctx_part_000 bp) (cdp_Evaluate (Sprintf_topLeftJS x))) = a @ '':'' @ c"
    and "CHR '':'' \<notin> set a" and "CHR '':'' \<notin> set c"
  shows "fst (GetTopLeft_part_000 pf toi drv bp x w) =
    (case pf a of Inl e \<Rightarrow> (0, 0, Some (NumError a e))
     | Inr t \<Rightarrow> (case pf c of Inl e \<Rightarrow> (0, 0, Some (NumError c e))
                 | Inr l \<Rightarrow> (wrap64 (toi t + 1), wrap64 (toi l + 1), None)))"
  using assms Split_two [of "CHR '':''" a c]
  by (cases "FindElement_part_000 drv bp x w")
     (simp add: GetTopLeft_part_000_def Run_def Let_def split: sum.splits)

lemma GetTopLeft_part_000_other:
  fixes pf :: "string \<Rightarrow> num_err + ('f::zero)"
  assumes "fst (FindElement_part_000 drv bp x w) = None"
    and "count_list (r_string (drv (snd (FindElement_part_000 drv bp x w)) (ctx_part_000 bp)
          (cdp_Evaluate (Sprintf_topLeftJS x)))) CHR '':'' \<noteq> 1"
  shows "snd (snd (fst (GetTopLeft_part_000 pf toi drv bp x w))) =
    err_of (drv (snd (FindElement_part_000 drv bp x w)) (ctx_part_000 bp) (cdp_Evaluate (Sprintf_topLeftJS x)))"
  using assms
  by (cases "FindElement_part_000 drv bp x w")
     (simp add: GetTopLeft_part_000_def Run_def Let_def length_Split)

text \<open>
  As C4 is stated it fails: the result \<^verbatim>\<open>10.5;20\<close>, returned with no error, is not a
  pair of coordinates, and \<open>GetTopLeft\<close> returns no parse error for it.
\<close>

theorem GetTopLeft_malformed_counterexample:
  "fst (GetTopLeft ParseFloat_sample drv_malformed b_sample ''//a'' w_init) = (1, 1, None)
   \<and> ParseFloat_sample ''10.5;20'' = Inl ErrSyntax"
  by (simp add: GetTopLeft_def Run_def Let_def drv_malformed_def empty_response_def err_of_def
      ParseFloat_sample_def)


text \<open>
  C4 (amended). When the result of the script has exactly one colon and both parts
  parse, \<open>GetTopLeft\<close> of \<^verbatim>\<open>cr.go\<close> returns the parsed values plus one and no error;
  when a part does not parse it returns zeros and the parse error of the first part
  that fails; when the call of the driver returned an error and the result has not
  exactly one colon, it returns that error. \<open>GetTopLeft\<close> of \<^verbatim>\<open>part_000\<close> returns the
  error of \<open>FindElement\<close> when the lookup fails, and otherwise does the same with the
  parsed values converted to \<^verbatim>\<open>int64\<close> before one is added.
\<close>

theorem GetTopLeft_coordinates:
  fixes pf :: "string \<Rightarrow> num_err + ('f::{zero,one,plus})"
  shows
  "(\<forall>a c t l. r_string (drv w (ctx b) (cdp_Evaluate (Sprintf_topLeftJS x))) = a @ '':'' @ c
        \<and> CHR '':'' \<notin> set a \<and> CHR '':'' \<notin> set c \<and> pf a = Inr t \<and> pf c = Inr l \<longrightarrow>
      fst (GetTopLeft pf drv b x w) = (t + 1, l + 1, None))
   \<and> (\<forall>a c e. r_string (drv w (ctx b) (cdp_Evaluate (Sprintf_topLeftJS x))) = a @ '':'' @ c
        \<and> CHR '':'' \<notin> set a \<and> CHR '':'' \<notin> set c \<and> pf a = Inl e \<longrightarrow>
      fst (GetTopLeft pf drv b x w) = (0, 0, Some (NumError a e)))
   \<and> (\<forall>a c t e. r_string (drv w (ctx b) (cdp_Evaluate (Sprintf_topLeftJS x))) = a @ '':'' @ c
        \<and> CHR '':'' \<notin> set a \<and> CHR '':'' \<notin> set c \<and> pf a = Inr t \<and> pf c = Inl e \<longrightarrow>
      fst (GetTopLeft pf drv b x w) = (0, 0, Some (NumError c e)))
   \<and> (\<forall>m. r_err (drv w (ctx b) (cdp_Evaluate (Sprintf_topLeftJS x))) = Some m
        \<and> count_list (r_string (drv w (ctx b) (cdp_Evaluate (Sprintf_topLeftJS x)))) CHR '':'' \<noteq> 1 \<longrightarrow>
      snd (snd (fst (GetTopLeft pf drv b x w))) = Some (DriverError m))
   \<and> (\<forall>e. fst (FindElement_part_000 drv bp x w) = Some e \<longrightarrow>
        fst (GetTopLeft_part_000 pf toi drv bp x w) = (0, 0, Some e))
   \<and> (\<forall>a c t l. fst (FindElement_part_000 drv bp x w) = None
        \<and> r_string (drv (snd (FindElement_part_000 drv bp x w)) (ctx_part_000 bp)
             (cdp_Evaluate (Sprintf_topLeftJS x))) = a @ '':'' @ c
        \<and> CHR '':'' \<notin> set a \<and> CHR '':'' \<notin> set c \<and> pf a = Inr t \<and> pf c = Inr l \<longrightarrow>
      fst (GetTopLeft_part_000 pf toi drv bp x w) = (wrap64 (toi t + 1), wrap64 (toi l + 1), None))
   \<and> (\<forall>a c e. fst (FindElement_part_000 drv bp x w) = None
        \<and> r_string (drv (snd (FindElement_part_000 drv bp x w)) (ctx_part_000 bp)
             (cdp_Evaluate (Sprintf_topLeftJS x))) = a @ '':'' @ c
        \<and> CHR '':'' \<notin> set a \<and> CHR '':'' \<notin> set c \<and> pf a = Inl e \<longrightarrow>
      fst (GetTopLeft_part_000 pf toi drv bp x w) = (0, 0, Some (NumError a e)))
   \<and> (\<forall>a c t e. fst (FindElement_part_000 drv bp x w) = None
        \<and> r_string (drv (snd (FindElement_part_000 drv bp x w)) (ctx_part_000 bp)
             (cdp_Evaluate (Sprintf_topLeftJS x))) = a @ '':'' @ c
        \<and> CHR '':'' \<notin> set a \<and> CHR '':'' \<notin> set c \<and> pf a = Inr t \<and> pf c = Inl e \<longrightarrow>
      fst (GetTopLeft_part_000 pf toi drv bp x w) = (0, 0, Some (NumError c e)))
   \<and> (\<forall>m. fst (FindElement_part_000 drv bp x w) = None
        \<and> r_err (drv (snd (FindElement_part_000 drv bp x w)) (ctx_part_000 bp)
             (cdp_Evaluate (Sprintf_topLeftJS x))) = Some m
        \<and> count_list (r_string (drv (snd (FindElement_part_000 drv bp x w)) (ctx_part_000 bp)
             (cdp_Evaluate (Sprintf_topLeftJS x)))) CHR '':'' \<noteq> 1 \<longrightarrow>
      snd (snd (fst (GetTopLeft_part_000 pf toi drv bp x w))) = Some (DriverError m))"
proof (intro conjI allI impI)
  fix a c t l
  assume "r_string (drv w (ctx b) (cdp_Evaluate (Sprintf_topLeftJS x))) = a @ '':'' @ c
      \<and> CHR '':'' \<notin> set a \<and> CHR '':'' \<notin> set c \<and> pf a = Inr t \<and> pf c = Inr l"
  then show "fst (GetTopLeft pf drv b x w) = (t + 1, l + 1, None)"
    using GetTopLeft_two_parts [of drv w b x a c pf] by simp
next
  fix a c e
  assume "r_string (drv w (ctx b) (cdp_Evaluate (Sprintf_topLeftJS x))) = a @ '':'' @ c
      \<and> CHR '':'' \<notin> set a \<and> CHR '':'' \<notin> set c \<and> pf a = Inl e"
  then show "fst (GetTopLeft pf drv b x w) = (0, 0, Some (NumError a e))"
    using GetTopLeft_two_parts [of drv w b x a c pf] by simp
next
  fix a c t e
  assume "r_string (drv w (ctx b) (cdp_Evaluate (Sprintf_topLeftJS x))) = a @ '':'' @ c
      \<and> CHR '':'' \<notin> set a \<and> CHR '':'' \<notin> set c \<and> pf a = Inr t \<and> pf c = Inl e"
  then show "fst (GetTopLeft pf drv b x w) = (0, 0, Some (NumError c e))"
    using GetTopLeft_two_parts [of drv w b x a c pf] by simp
next
  fix m
  assume "r_err (drv w (ctx b) (cdp_Evaluate (Sprintf_topLeftJS x))) = Some m
      \<and> count_list (r_string (drv w (ctx b) (cdp_Evaluate (Sprintf_topLeftJS x)))) CHR '':'' \<noteq> 1"
  then show "snd (snd (fst (GetTopLeft pf drv b x w))) = Some (DriverError m)"
    using GetTopLeft_other [of drv w b x pf] by (simp add: err_of_def)
next
  fix e
  assume "fst (FindElement_part_000 drv bp x w) = Some e"
  then show "fst (GetTopLeft_part_000 pf toi drv bp x w) = (0, 0, Some e)"
    by (rule GetTopLeft_part_000_not_found)
next
  fix a c t l
  assume "fst (FindElement_part_000 drv bp x w) = None
      \<and> r_string (drv (snd (FindElement_part_000 drv bp x w)) (ctx_part_000 bp)
           (cdp_Evaluate (Sprintf_topLeftJS x))) = a @ '':'' @ c
      \<and> CHR '':'' \<notin> set a \<and> CHR '':'' \<notin> set c \<and> pf a = Inr t \<and> pf c = Inr l"
  then show "fst (GetTopLeft_part_000 pf toi drv bp x w) = (wrap64 (toi t + 1), wrap64 (toi l + 1), None)"
    using GetTopLeft_part_000_two_parts [of drv bp x w a c pf toi] by simp
next
  fix a c e
  assume "fst (FindElement_part_000 drv bp x w) = None
      \<and> r_string (drv (snd (FindElement_part_000 drv bp x w)) (ctx_part_000 bp)
           (cdp_Evaluate (Sprintf_topLeftJS x))) = a @ '':'' @ c
      \<and> CHR '':'' \<notin> set a \<and> CHR '':'' \<notin> set c \<and> pf a = Inl e"
  then show "fst (GetTopLeft_part_000 pf toi drv bp x w) = (0, 0, Some (NumError a e))"
    using GetTopLeft_part_000_two_parts [of drv bp x w a c pf toi] by simp
next
  fix a c t e
  assume "fst (FindElement_part_000 drv bp x w) = None
      \<and> r_string (drv (snd (FindElement_part_000 drv bp x w)) (ctx_part_000 bp)
           (cdp_Evaluate (Sprintf_topLeftJS x))) = a @ '':'' @ c
      \<and> CHR '':'' \<notin> set a \<and> CHR '':'' \<notin> set c \<and> pf a = Inr t \<and> pf c = Inl e"
  then show "fst (GetTopLeft_part_000 pf toi drv bp x w) = (0, 0, Some (NumError c e))"
    using GetTopLeft_part_000_two_parts [of drv bp x w a c pf toi] by simp
next
  fix m
  assume "fst (FindElement_part_000 drv bp x w) = None
      \<and> r_err (drv (snd (FindElement_part_000 drv bp x w)) (ctx_part_000 bp)
           (cdp_Evaluate (Sprintf_topLeftJS x))) = Some m
      \<and> count_list (r_string (drv (snd (FindElement_part_000 drv bp x w)) (ctx_part_000 bp)
           (cdp_Evaluate (Sprintf_topLeftJS x)))) CHR '':'' \<noteq> 1"
  then show "snd (snd (fst (GetTopLeft_part_000 pf toi drv bp x w))) = Some (DriverError m)"
    using GetTopLeft_part_000_other [of drv bp x w pf toi] by (simp add: err_of_def)
qed

lemma drv_page_FindElement_part_000:
  "fst (FindElement_part_000 drv_page b_sample_part_000 ''//a'' w_init) = None
   \<and> cancelled (snd (FindElement_part_000 drv_page b_sample_part_000 ''//a'' w_init)) = {}"
  by (simp add: FindElement_part_000_def FindElement_loop.simps GetNodes_part_000_def Run_def Sleep_def
      Let_def drv_page_def w_init_def empty_response_def b_sample_part_000_def ctx_done_def err_of_def)

theorem GetTopLeft_coordinates_witness:
  "fst (GetTopLeft ParseFloat_sample drv_page b_sample ''//a'' w_init) = (11.5, 21, None)
   \<and> fst (GetTopLeft_part_000 ParseFloat_sample int64_sample drv_page b_sample_part_000 ''//a'' w_init)
       = (11, 21, None)
   \<and> snd (snd (fst (GetTopLeft ParseFloat_sample drv_failing b_sample ''//a'' w_init)))
       = Some (DriverError ''context deadline exceeded'')"
proof -
  note t = GetTopLeft_coordinates [where drv = drv_page and w = w_init and b = b_sample
      and bp = b_sample_part_000 and x = "''//a''" and pf = ParseFloat_sample and toi = int64_sample]
  note f = GetTopLeft_coordinates [where drv = drv_failing and w = w_init and b = b_sample
      and bp = b_sample_part_000 and x = "''//a''" and pf = ParseFloat_sample and toi = int64_sample]
  have nd: "\<not> ctx_done w_init (ctx b_sample)"
    by (simp add: ctx_done_def w_init_def b_sample_def)
  have h1: "r_string (drv_page w_init (ctx b_sample) (cdp_Evaluate (Sprintf_topLeftJS ''//a''))) = ''10.5'' @ '':'' @ ''20''
      \<and> CHR '':'' \<notin> set ''10.5'' \<and> CHR '':'' \<notin> set ''20''
      \<and> ParseFloat_sample ''10.5'' = Inr 10.5 \<and> ParseFloat_sample ''20'' = Inr 20"
    using nd by (simp add: drv_page_def empty_response_def ParseFloat_sample_def)
  have 1: "fst (GetTopLeft ParseFloat_sample drv_page b_sample ''//a'' w_init) = (10.5 + 1, 20 + 1, None)"
    by (rule t [THEN conjunct1, rule_format, OF h1])
  have nd2: "\<not> ctx_done (snd (FindElement_part_000 drv_page b_sample_part_000 ''//a'' w_init))
      (ctx_part_000 b_sample_part_000)"
    unfolding ctx_done_def using drv_page_FindElement_part_000 by (simp add: list_ex_iff)
  have h2: "fst (FindElement_part_000 drv_page b_sample_part_000 ''//a'' w_init) = None
      \<and> r_string (drv_page (snd (FindElement_part_000 drv_page b_sample_part_000 ''//a'' w_init))
           (ctx_part_000 b_sample_part_000) (cdp_Evaluate (Sprintf_topLeftJS ''//a''))) = ''10.5'' @ '':'' @ ''20''
      \<and> CHR '':'' \<notin> set ''10.5'' \<and> CHR '':'' \<notin> set ''20''
      \<and> ParseFloat_sample ''10.5'' = Inr 10.5 \<and> ParseFloat_sample ''20'' = Inr 20"
    using nd2 by (simp add: drv_page_def empty_response_def ParseFloat_sample_def drv_page_FindElement_part_000)
  have 2: "fst (GetTopLeft_part_000 ParseFloat_sample int64_sample drv_page b_sample_part_000 ''//a'' w_init)
      = (wrap64 (int64_sample 10.5 + 1), wrap64 (int64_sample 20 + 1), None)"
    by (rule t [THEN conjunct2, THEN conjunct2, THEN conjunct2, THEN conjunct2, THEN conjunct2,
          THEN conjunct1, rule_format, OF h2])
  have h3: "r_err (drv_failing w_init (ctx b_sample) (cdp_Evaluate (Sprintf_topLeftJS ''//a''))) =
        Some ''context deadline exceeded''
      \<and> count_list (r_string (drv_failing w_init (ctx b_sample) (cdp_Evaluate (Sprintf_topLeftJS ''//a''))))
          CHR '':'' \<noteq> 1"
    by (simp add: drv_failing_def empty_response_def)
  have 3: "snd (snd (fst (GetTopLeft ParseFloat_sample drv_failing b_sample ''//a'' w_init)))
       = Some (DriverError ''context deadline exceeded'')"
    by (rule f [THEN conjunct2, THEN conjunct2, THEN conjunct2, THEN conjunct1, rule_format, OF h3])
  have fl: "\<lfloor>10.5::real\<rfloor> = 10"
    by linarith
  show ?thesis
    using 1 2 3 by (simp add: int64_sample_def wrap64_def fl)
qed

subsection \<open>After Close\<close>

lemma ctx_done_mono: "cancelled w \<subseteq> cancelled w' \<Longrightarrow> ctx_done w c \<Longrightarrow> ctx_done w' c"
  by (auto simp: ctx_done_def list_ex_iff)

lemma ctx_done_member: "i \<in> set (ctx_ids c) \<Longrightarrow> i \<in> cancelled w \<Longrightarrow> ctx_done w c"
  by (auto simp: ctx_done_def list_ex_iff)

lemma ctx_done_cong: "cancelled w = cancelled w' \<Longrightarrow> ctx_done w c = ctx_done w' c"
  by (simp add: ctx_done_def)

lemma Run_cancelled [simp]: "cancelled (snd (Run drv c a w)) = cancelled w"
  by (simp add: Run_def Let_def)

lemma Sleep_cancelled [simp]: "cancelled (Sleep d w) = cancelled w"
  by (simp add: Sleep_def)

text \<open>
  The handle of a successful \<open>New\<close>: its cancel function is the one of the root of
  its context. In \<^verbatim>\<open>cr.go\<close> the deferred calls have cancelled the task context by the
  time \<open>New\<close> returns.
\<close>

lemma New_handle:
  assumes "New drv args w = ((Initialised b, e), w')"
  shows "cancelCtx b \<in> set (ctx_ids (ctx b))" and "ctx_done w' (ctx b)"
    and "ctx b = Derived (Suc (Suc (next_id w))) ByTask
           (Derived (Suc (next_id w)) (ByAllocator ([DefaultExecAllocatorOptions, DisableGPU, Headless] @ args))
             (Derived (next_id w) (ByTimeout (Second * 5)) Background))"
    and "cancelCtx b = next_id w" and "e = None"
  using assms
  by (auto simp: New_def WithTimeout_def NewExecAllocator_def NewContext_def derive_def Run_def cancel_def
      Let_def ctx_done_def split: option.splits)

lemma New_shapes:
  "case fst (New drv args w) of
     (Initialised b, e) \<Rightarrow> e = None \<and> cancelCtx b \<in> set (ctx_ids (ctx b)) \<and> timeout b = Second * 5
   | (Uninitialised t, e) \<Rightarrow> e \<noteq> None \<and> t = Second * 5"
  by (auto simp: New_def WithTimeout_def NewExecAllocator_def NewContext_def derive_def Run_def cancel_def
      Let_def split: option.splits)

lemma New_part_000_handle:
  assumes "New_part_000 drv w = (Inr bp, w')"
  shows "cancelContext bp \<in> set (ctx_ids (ctx_part_000 bp))"
  using assms
  by (auto simp: New_part_000_def WithCancel_def derive_def Run_def Let_def split: option.splits)

lemma Close_done:
  "cancelCtx b \<in> set (ctx_ids (ctx b)) \<Longrightarrow> Close (Initialised b) w = Returns (e, wc) \<Longrightarrow>
   e = None \<and> ctx_done wc (ctx b)"
  by (auto simp: cancel_def intro: ctx_done_member [of "cancelCtx b"])

lemma Close_part_000_cancelled:
  "cancelContext bp \<in> cancelled (snd (Close_part_000 drv bp w))"
  by (simp add: Close_part_000_def cancel_def Run_def Let_def)

lemma Close_part_000_done:
  "cancelContext bp \<in> set (ctx_ids (ctx_part_000 bp)) \<Longrightarrow>
   ctx_done (snd (Close_part_000 drv bp w)) (ctx_part_000 bp)"
  by (rule ctx_done_member [of "cancelContext bp"]) (simp_all add: Close_part_000_cancelled)

text \<open>The operations of \<^verbatim>\<open>cr.go\<close> under a context that is done.\<close>

lemma done_cr:
  fixes pf :: "string \<Rightarrow> num_err + ('f::{zero,one,plus})"
  assumes c: "fails_when_done drv" and d: "ctx_done w (ctx b)"
  shows "fst (RunAction drv b a w) \<noteq> None"
    and "fst (RunTasks drv b as w) \<noteq> None"
    and "r_err (fst (RunTaskWithOther drv b a as w)) \<noteq> None"
    and "fst (Navigate drv b url as w) \<noteq> None"
    and "fst (MustNavigate drv b url as w) \<noteq> Returned"
    and "snd (fst (Location drv b as w)) \<noteq> None"
    and "fst (SendKeys drv b x v w) \<noteq> None"
    and "fst (MustSendKeys drv b x v w) \<noteq> Returned"
    and "fst (Click drv b x w) \<noteq> None"
    and "fst (MustClick drv b x w) \<noteq> Returned"
    and "snd (fst (GetSource drv b w)) \<noteq> None"
    and "snd (fst (GetAttributes drv b x w)) \<noteq> None"
    and "snd (snd (fst (GetTopLeft pf drv b x w))) \<noteq> None"
    and "fst (ClickByXY pf drv b x w) \<noteq> None"
    and "snd (fst (ElementScreenshot drv b url sel by_opts w)) \<noteq> None"
    and "snd (fst (Screenshot drv b url q w)) \<noteq> None"
    and "snd (fst (GetNodes drv b x w)) \<noteq> None"
    and "fst (FindElement drv b x w) \<noteq> None"
proof -
  have r: "r_err (drv w (ctx b) a') \<noteq> None \<and> r_string (drv w (ctx b) a') = []" for a'
    using c d by (simp add: fails_when_done_def)
  show "fst (RunAction drv b a w) \<noteq> None"
    using r by (simp add: RunAction_def Run_def Let_def)
  show "fst (RunTasks drv b as w) \<noteq> None"
    using r by (simp add: RunTasks_def Run_def Let_def)
  show "r_err (fst (RunTaskWithOther drv b a as w)) \<noteq> None"
    using r by (simp add: RunTaskWithOther_def Run_def Let_def)
  show n: "fst (Navigate drv b url as w) \<noteq> None"
    using r by (simp add: Navigate_def RunTaskWithOther_def Run_def Let_def)
  show "fst (MustNavigate drv b url as w) \<noteq> Returned"
    using n by (auto simp: MustNavigate_def split: prod.splits option.splits)
  show "snd (fst (Location drv b as w)) \<noteq> None"
    using r by (simp add: Location_def RunTaskWithOther_def Run_def Let_def)
  show s: "fst (SendKeys drv b x v w) \<noteq> None"
    using r by (simp add: SendKeys_def Run_def Let_def)
  show "fst (MustSendKeys drv b x v w) \<noteq> Returned"
    using s by (auto simp: MustSendKeys_def split: prod.splits option.splits)
  show k: "fst (Click drv b x w) \<noteq> None"
    using r by (simp add: Click_def Run_def Let_def)
  show "fst (MustClick drv b x w) \<noteq> Returned"
    using k by (auto simp: MustClick_def split: prod.splits option.splits)
  show "snd (fst (GetSource drv b w)) \<noteq> None"
    using r by (simp add: GetSource_def Run_def Let_def)
  show "snd (fst (GetAttributes drv b x w)) \<noteq> None"
    using r by (simp add: GetAttributes_def Run_def Let_def)
  show g: "snd (snd (fst (GetTopLeft pf drv b x w))) \<noteq> None"
    using r [of "cdp_Evaluate (Sprintf_topLeftJS x)"] by (simp add: GetTopLeft_def Run_def Let_def)
  show "fst (ClickByXY pf drv b x w) \<noteq> None"
    using g by (cases "GetTopLeft pf drv b x w") (auto simp: ClickByXY_def split: option.splits)
  show "snd (fst (ElementScreenshot drv b url sel by_opts w)) \<noteq> None"
    using r by (simp add: ElementScreenshot_def Run_def Let_def)
  show "snd (fst (Screenshot drv b url q w)) \<noteq> None"
    using r by (simp add: Screenshot_def Run_def Let_def)
  have "ctx_done (w\<lparr>next_id := Suc (next_id w)\<rparr>) (Derived (next_id w) (ByTimeout (timeout b)) (ctx b))"
    using d by (simp add: ctx_done_def)
  then have "r_err (drv (w\<lparr>next_id := Suc (next_id w)\<rparr>) (Derived (next_id w) (ByTimeout (timeout b)) (ctx b))
      (cdp_Nodes x)) \<noteq> None"
    using c by (simp add: fails_when_done_def)
  then show gn: "snd (fst (GetNodes drv b x w)) \<noteq> None"
    by (simp add: GetNodes_trace)
  show "fst (FindElement drv b x w) \<noteq> None"
    using gn by (cases "GetNodes drv b x w") (auto simp: FindElement_def split: option.splits)
qed


text \<open>The operations of \<^verbatim>\<open>part_000\<close> under a context that is done.\<close>

lemma FindElement_part_000_done:
  assumes c: "fails_when_done drv" and d: "ctx_done w (ctx_part_000 bp)"
  shows "fst (FindElement_part_000 drv bp x w) = Some ErrNotFound"
    and "cancelled (snd (FindElement_part_000 drv bp x w)) = cancelled w"
proof -
  obtain rs where rs:
    "cancelled (snd (FindElement_part_000 drv bp x w)) = cancelled w"
    "\<forall>r \<in> set rs. \<exists>w1. cancelled w1 = cancelled w \<and> r = drv w1 (ctx_part_000 bp) (cdp_Nodes x)"
    "1 \<le> length rs"
    "if found (last rs) then fst (FindElement_part_000 drv bp x w) = None
     else fst (FindElement_part_000 drv bp x w) = Some ErrNotFound \<and> length rs = 8"
    by (rule FindElement_part_000_summary [of w drv bp x])
  have "rs \<noteq> []"
    using rs(3) by auto
  then have "last rs \<in> set rs"
    by simp
  then obtain w1 where w1: "cancelled w1 = cancelled w" "last rs = drv w1 (ctx_part_000 bp) (cdp_Nodes x)"
    using rs(2) by blast
  have "ctx_done w1 (ctx_part_000 bp)"
    using d ctx_done_cong [OF w1(1)] by simp
  then have "r_err (last rs) \<noteq> None"
    using c w1(2) by (simp add: fails_when_done_def)
  then have "\<not> found (last rs)"
    by (simp add: found_def)
  then show "fst (FindElement_part_000 drv bp x w) = Some ErrNotFound"
    using rs(4) by simp
  show "cancelled (snd (FindElement_part_000 drv bp x w)) = cancelled w"
    by (rule rs(1))
qed

lemma ClickNode_loop_done:
  "fails_when_done drv \<Longrightarrow> ctx_done w (ctx_part_000 bp) \<Longrightarrow> i < 5 \<or> err \<noteq> None \<Longrightarrow>
   fst (ClickNode_loop drv bp x i err w) \<noteq> None"
proof (induction drv bp x i err w rule: ClickNode_loop.induct)
  case (1 drv bp xpath i err w)
  note c = "1.prems"(1)
  show ?case
  proof (cases "i < 5")
    case False
    then show ?thesis
      using "1.prems"(3) by (simp add: ClickNode_loop.simps)
  next
    case True
    define w1 where "w1 = Sleep Second w"
    have d1: "ctx_done w1 (ctx_part_000 bp)"
      using "1.prems"(2) ctx_done_cong [of w1 w] by (simp add: w1_def)
    define w2 where "w2 = snd (FindElement_part_000 drv bp xpath w1)"
    have f: "FindElement_part_000 drv bp xpath w1 = (Some ErrNotFound, w2)"
      using FindElement_part_000_done(1) [OF c d1, of xpath] by (simp add: w2_def prod_eq_iff)
    have "cancelled w2 = cancelled w1"
      using FindElement_part_000_done(2) [OF c d1, of xpath] by (simp add: w2_def)
    then have d2: "ctx_done w2 (ctx_part_000 bp)"
      using d1 ctx_done_cong [of w2 w1] by simp
    have eq: "ClickNode_loop drv bp xpath i err w = ClickNode_loop drv bp xpath (i + 1) (Some ErrNotFound) w2"
      using True f by (subst ClickNode_loop.simps) (simp add: w1_def [symmetric])
    have "fst (ClickNode_loop drv bp xpath (i + 1) (Some ErrNotFound) w2) \<noteq> None"
      by (rule "1.IH"(3) [OF True w1_def f [symmetric] refl c d2]) simp
    then show ?thesis
      by (simp add: eq)
  qed
qed

lemma done_part_000:
  fixes pf :: "string \<Rightarrow> num_err + ('f::zero)"
  assumes c: "fails_when_done drv" and d: "ctx_done w (ctx_part_000 bp)"
  shows "fst (Navigate_part_000 drv bp url w) \<noteq> None"
    and "snd (fst (Location_part_000 drv bp w)) \<noteq> None"
    and "fst (SendKeys_part_000 drv bp x v w) \<noteq> None"
    and "fst (Click_part_000 drv bp x w) \<noteq> None"
    and "snd (fst (GetSource_part_000 drv bp w)) \<noteq> None"
    and "snd (fst (GetAttributes_part_000 drv bp x w)) \<noteq> None"
    and "fst (ClickByXY_part_000 pf toi drv bp x w) \<noteq> None"
    and "snd (snd (fst (GetTopLeft_part_000 pf toi drv bp x w))) \<noteq> None"
    and "fst (ClickNode_part_000 drv bp x w) \<noteq> None"
    and "fst (FindElement_part_000 drv bp x w) \<noteq> None"
    and "snd (fst (GetNodes_part_000 drv bp x w)) \<noteq> None"
proof -
  have r: "r_err (drv w (ctx_part_000 bp) a') \<noteq> None" for a'
    using c d by (simp add: fails_when_done_def)
  have f: "FindElement_part_000 drv bp x w = (Some ErrNotFound, snd (FindElement_part_000 drv bp x w))"
    using FindElement_part_000_done(1) [OF c d, of x] by (simp add: prod_eq_iff)
  show "fst (Navigate_part_000 drv bp url w) \<noteq> None"
    using r by (simp add: Navigate_part_000_def Run_def Let_def)
  show "snd (fst (Location_part_000 drv bp w)) \<noteq> None"
    using r by (simp add: Location_part_000_def Run_def Let_def)
  show "fst (SendKeys_part_000 drv bp x v w) \<noteq> None"
    by (subst SendKeys_part_000_def, subst f) simp
  show "fst (Click_part_000 drv bp x w) \<noteq> None"
    by (subst Click_part_000_def, subst f) simp
  show "snd (fst (GetSource_part_000 drv bp w)) \<noteq> None"
    using r by (simp add: GetSource_part_000_def Run_def Let_def)
  show "snd (fst (GetAttributes_part_000 drv bp x w)) \<noteq> None"
    by (subst GetAttributes_part_000_def, subst f) simp
  show "fst (ClickByXY_part_000 pf toi drv bp x w) \<noteq> None"
    by (subst ClickByXY_part_000_def, subst f) simp
  show "snd (snd (fst (GetTopLeft_part_000 pf toi drv bp x w))) \<noteq> None"
    by (subst GetTopLeft_part_000_def, subst f) simp
  show "fst (ClickNode_part_000 drv bp x w) \<noteq> None"
    unfolding ClickNode_part_000_def by (rule ClickNode_loop_done [OF c d]) simp
  show "fst (FindElement_part_000 drv bp x w) \<noteq> None"
    using FindElement_part_000_done(1) [OF c d, of x] by simp
  show "snd (fst (GetNodes_part_000 drv bp x w)) \<noteq> None"
    using r by (simp add: GetNodes_part_000_def Run_def Let_def)
qed


text \<open>
  C8. \<open>Close\<close> calls the cancel function of the handle. For a handle whose cancel
  function belongs to its context or to an ancestor of it, as \<open>New\<close> builds it and
  \<open>SetTimeout\<close> keeps it, the context is done after \<open>Close\<close> and in every later
  world. With a driver that fails the calls made under a done context, every operation
  that calls the driver then returns an error, and a \<^verbatim>\<open>Must\<close> variant ends
  execution. Both versions.
\<close>

theorem operations_fail_after_Close:
  fixes pf :: "string \<Rightarrow> num_err + ('f::{zero,one,plus})"
  assumes "fails_when_done drv"
    and "cancelCtx b \<in> set (ctx_ids (ctx b))"
    and "Close (Initialised b) w = Returns (e, wc)"
    and "cancelled wc \<subseteq> cancelled w1"
    and "cancelContext bp \<in> set (ctx_ids (ctx_part_000 bp))"
    and "cancelled (snd (Close_part_000 drv bp w)) \<subseteq> cancelled w2"
  shows "Close (Initialised b) w = Returns (None, cancel (cancelCtx b) w)
    \<and> e = None \<and> ctx_done wc (ctx b) \<and> ctx_done w1 (ctx b)
    \<and> fst (RunAction drv b a w1) \<noteq> None
    \<and> fst (RunTasks drv b as w1) \<noteq> None
    \<and> r_err (fst (RunTaskWithOther drv b a as w1)) \<noteq> None
    \<and> fst (Navigate drv b url as w1) \<noteq> None
    \<and> fst (MustNavigate drv b url as w1) \<noteq> Returned
    \<and> snd (fst (Location drv b as w1)) \<noteq> None
    \<and> fst (SendKeys drv b x v w1) \<noteq> None
    \<and> fst (MustSendKeys drv b x v w1) \<noteq> Returned
    \<and> fst (Click drv b x w1) \<noteq> None
    \<and> fst (MustClick drv b x w1) \<noteq> Returned
    \<and> snd (fst (GetSource drv b w1)) \<noteq> None
    \<and> snd (fst (GetAttributes drv b x w1)) \<noteq> None
    \<and> snd (snd (fst (GetTopLeft pf drv b x w1))) \<noteq> None
    \<and> fst (ClickByXY pf drv b x w1) \<noteq> None
    \<and> snd (fst (ElementScreenshot drv b url sel by_opts w1)) \<noteq> None
    \<and> snd (fst (Screenshot drv b url q w1)) \<noteq> None
    \<and> snd (fst (GetNodes drv b x w1)) \<noteq> None
    \<and> fst (FindElement drv b x w1) \<noteq> None
    \<and> ctx_done (snd (Close_part_000 drv bp w)) (ctx_part_000 bp) \<and> ctx_done w2 (ctx_part_000 bp)
    \<and> fst (Navigate_part_000 drv bp url w2) \<noteq> None
    \<and> snd (fst (Location_part_000 drv bp w2)) \<noteq> None
    \<and> fst (SendKeys_part_000 drv bp x v w2) \<noteq> None
    \<and> fst (Click_part_000 drv bp x w2) \<noteq> None
    \<and> snd (fst (GetSource_part_000 drv bp w2)) \<noteq> None
    \<and> snd (fst (GetAttributes_part_000 drv bp x w2)) \<noteq> None
    \<and> fst (ClickByXY_part_000 pf toi drv bp x w2) \<noteq> None
    \<and> snd (snd (fst (GetTopLeft_part_000 pf toi drv bp x w2))) \<noteq> None
    \<and> fst (ClickNode_part_000 drv bp x w2) \<noteq> None
    \<and> fst (FindElement_part_000 drv bp x w2) \<noteq> None
    \<and> snd (fst (GetNodes_part_000 drv bp x w2)) \<noteq> None
    \<and> (case fst (New drv args w0) of
          (Initialised b0, e0) \<Rightarrow> e0 = None \<and> cancelCtx b0 \<in> set (ctx_ids (ctx b0))
        | (Uninitialised t, e0) \<Rightarrow> e0 \<noteq> None)
    \<and> (case fst (New_part_000 drv w0) of
          Inr bp0 \<Rightarrow> cancelContext bp0 \<in> set (ctx_ids (ctx_part_000 bp0)) | Inl e \<Rightarrow> True)
    \<and> cancelCtx (SetTimeout d b) = cancelCtx b \<and> ctx (SetTimeout d b) = ctx b"
proof -
  have n1: "case fst (New drv args w0) of
      (Initialised b0, e0) \<Rightarrow> e0 = None \<and> cancelCtx b0 \<in> set (ctx_ids (ctx b0))
    | (Uninitialised t, e0) \<Rightarrow> e0 \<noteq> None"
    using New_shapes [of drv args w0] by (auto split: prod.splits Browser.splits)
  have n2: "case fst (New_part_000 drv w0) of
      Inr bp0 \<Rightarrow> cancelContext bp0 \<in> set (ctx_ids (ctx_part_000 bp0)) | Inl e \<Rightarrow> True"
  proof (cases "fst (New_part_000 drv w0)")
    case (Inr bp0)
    then have "New_part_000 drv w0 = (Inr bp0, snd (New_part_000 drv w0))"
      by (simp add: prod_eq_iff)
    then have "cancelContext bp0 \<in> set (ctx_ids (ctx_part_000 bp0))"
      by (rule New_part_000_handle)
    with Inr show ?thesis
      by simp
  qed simp
  have st: "cancelCtx (SetTimeout d b) = cancelCtx b" "ctx (SetTimeout d b) = ctx b"
    by (simp_all add: SetTimeout_def)
  have c0: "Close (Initialised b) w = Returns (None, cancel (cancelCtx b) w)"
    by simp
  have e: "e = None" and c1: "ctx_done wc (ctx b)"
    using Close_done [OF assms(2,3)] by simp_all
  have d1: "ctx_done w1 (ctx b)"
    using assms(4) c1 by (rule ctx_done_mono)
  have c2: "ctx_done (snd (Close_part_000 drv bp w)) (ctx_part_000 bp)"
    using assms(5) by (rule Close_part_000_done)
  have d2: "ctx_done w2 (ctx_part_000 bp)"
    using assms(6) c2 by (rule ctx_done_mono)
  note cr = done_cr [OF assms(1) d1]
  note p0 = done_part_000 [OF assms(1) d2]
  show ?thesis
    by (intro conjI c0 e c1 d1 c2 d2 cr p0 n1 n2 st)
qed


lemma fails_when_done_drv_page: "fails_when_done drv_page"
  by (simp add: fails_when_done_def drv_page_def empty_response_def)

lemma live_before_Close:
  "fst (Navigate drv_page b_sample ''http://x'' [] w_init) = None
   \<and> fst (FindElement drv_page b_sample ''//a'' w_init) = None
   \<and> fst (Click_part_000 drv_page b_sample_part_000 ''//a'' w_init) = None"
  by (simp add: Navigate_def RunTaskWithOther_def FindElement_def GetNodes_def WithTimeout_def derive_def
      cancel_def Click_part_000_def FindElement_part_000_def FindElement_loop.simps GetNodes_part_000_def
      Run_def Sleep_def Let_def drv_page_def w_init_def empty_response_def b_sample_def
      b_sample_part_000_def ctx_done_def err_of_def)

theorem operations_fail_after_Close_witness:
  "fails_when_done drv_page
   \<and> cancelCtx b_sample \<in> set (ctx_ids (ctx b_sample))
   \<and> cancelContext b_sample_part_000 \<in> set (ctx_ids (ctx_part_000 b_sample_part_000))
   \<and> Close (Initialised b_sample) w_init = Returns (None, cancel 0 w_init)
   \<and> fst (Navigate drv_page b_sample ''http://x'' [] w_init) = None
   \<and> fst (Navigate drv_page b_sample ''http://x'' [] (cancel 0 w_init)) \<noteq> None
   \<and> fst (FindElement drv_page b_sample ''//a'' w_init) = None
   \<and> fst (FindElement drv_page b_sample ''//a'' (cancel 0 w_init)) \<noteq> None
   \<and> fst (Click_part_000 drv_page b_sample_part_000 ''//a'' w_init) = None
   \<and> fst (Click_part_000 drv_page b_sample_part_000 ''//a''
          (snd (Close_part_000 drv_page b_sample_part_000 w_init))) \<noteq> None"
proof -
  have wf: "cancelCtx b_sample \<in> set (ctx_ids (ctx b_sample))"
    by (simp add: b_sample_def)
  have wf0: "cancelContext b_sample_part_000 \<in> set (ctx_ids (ctx_part_000 b_sample_part_000))"
    by (simp add: b_sample_part_000_def)
  have cl: "Close (Initialised b_sample) w_init = Returns (None, cancel 0 w_init)"
    by (simp add: b_sample_def)
  note t = operations_fail_after_Close [OF fails_when_done_drv_page wf cl subset_refl wf0 subset_refl,
      where pf = ParseFloat_sample and toi = int64_sample
        and url = "''http://x''" and x = "''//a''" and as = "[]"]
  have 1: "fst (Navigate drv_page b_sample ''http://x'' [] (cancel 0 w_init)) \<noteq> None"
    using t by blast
  have 2: "fst (FindElement drv_page b_sample ''//a'' (cancel 0 w_init)) \<noteq> None"
    using t by blast
  have 3: "fst (Click_part_000 drv_page b_sample_part_000 ''//a''
          (snd (Close_part_000 drv_page b_sample_part_000 w_init))) \<noteq> None"
    using t by blast
  show ?thesis
    using fails_when_done_drv_page wf wf0 cl live_before_Close 1 2 3 by simp
qed

subsection \<open>The timeout of a handle\<close>

lemma New_timeout:
  "case fst (fst (New drv args w)) of
     Initialised b0 \<Rightarrow> timeout b0 = Second * 5 | Uninitialised t \<Rightarrow> t = Second * 5"
  using New_shapes [of drv args w] by (auto split: prod.splits Browser.splits)

text \<open>
  C9. After \<open>SetTimeout d\<close> the timeout of the handle is \<open>d\<close> when \<open>d\<close> is at least one
  second and exactly one second otherwise, so it is at least one second for every
  \<open>d\<close>; the other place that sets the timeout, \<open>New\<close>, sets five seconds. The other
  fields of the handle are as they were.
\<close>

theorem SetTimeout_at_least_minTimeout:
  "timeout (SetTimeout d b) = (if Second \<le> d then d else Second)
   \<and> Second \<le> timeout (SetTimeout d b)
   \<and> minTimeout = Second \<and> Second = 1000000000
   \<and> (case fst (fst (New drv args w)) of
         Initialised b0 \<Rightarrow> Second \<le> timeout b0 | Uninitialised t \<Rightarrow> Second \<le> t)
   \<and> ctx (SetTimeout d b) = ctx b \<and> cancelCtx (SetTimeout d b) = cancelCtx b"
proof -
  have "case fst (fst (New drv args w)) of
      Initialised b0 \<Rightarrow> Second \<le> timeout b0 | Uninitialised t \<Rightarrow> Second \<le> t"
    using New_timeout [of drv args w] by (auto simp: Second_def split: Browser.splits)
  then show ?thesis
    by (simp add: SetTimeout_def minTimeout_def Second_def)
qed

theorem SetTimeout_at_least_minTimeout_witness:
  "timeout (SetTimeout 500000000 \<lparr>ctx = Background, cancelCtx = 0, timeout = 5000000000, taskCtx = Background\<rparr>)
     = 1000000000
   \<and> timeout (SetTimeout 30000000000 \<lparr>ctx = Background, cancelCtx = 0, timeout = 5000000000, taskCtx = Background\<rparr>)
     = 30000000000
   \<and> timeout (SetTimeout (- 1) \<lparr>ctx = Background, cancelCtx = 0, timeout = 5000000000, taskCtx = Background\<rparr>)
     = 1000000000"
proof -
  let ?b = "\<lparr>ctx = Background, cancelCtx = 0, timeout = 5000000000, taskCtx = Background\<rparr>"
  have a: "timeout (SetTimeout 500000000 ?b) = (if Second \<le> 500000000 then 500000000 else Second)"
    using SetTimeout_at_least_minTimeout [of 500000000 ?b] by blast
  have b: "timeout (SetTimeout 30000000000 ?b) = (if Second \<le> 30000000000 then 30000000000 else Second)"
    using SetTimeout_at_least_minTimeout [of 30000000000 ?b] by blast
  have c: "timeout (SetTimeout (- 1) ?b) = (if Second \<le> - 1 then - 1 else Second)"
    using SetTimeout_at_least_minTimeout [of "- 1" ?b] by blast
  show ?thesis
    unfolding a b c by (simp add: Second_def)
qed

subsection \<open>Close\<close>

text \<open>
  As C10 is stated it fails: on the struct \<open>New\<close> returns beside an error the cancel
  function is \<^verbatim>\<open>nil\<close>, and \<open>Close\<close> panics.
\<close>

theorem Close_uninitialised_counterexample:
  "fst (New drv_failing [] w_init) =
     (Uninitialised 5000000000, Some (DriverError ''context deadline exceeded''))
   \<and> Close (fst (fst (New drv_failing [] w_init))) (snd (New drv_failing [] w_init)) = Panics"
  by (simp add: New_def WithTimeout_def NewExecAllocator_def NewContext_def derive_def Run_def cancel_def
      Let_def err_of_def drv_failing_def empty_response_def w_init_def Second_def)

text \<open>
  C10 (amended). \<open>Close\<close> of \<^verbatim>\<open>cr.go\<close> returns \<^verbatim>\<open>nil\<close> for every handle whose fields are
  set, in every state of the world, also when it is closed already; such is the handle
  of every \<open>New\<close> that returned no error, and only that one. No call of \<open>Close\<close> returns
  an error.
\<close>

theorem Close_returns_nil:
  "Close (Initialised b) w = Returns (None, cancel (cancelCtx b) w)
   \<and> Close (Initialised b) (cancel (cancelCtx b) w) =
       Returns (None, cancel (cancelCtx b) (cancel (cancelCtx b) w))
   \<and> (\<forall>e w'. Close h w \<noteq> Returns (Some e, w'))
   \<and> (case fst (New drv args w0) of
         (Initialised b0, e0) \<Rightarrow> e0 = None \<and> Close (Initialised b0) w = Returns (None, cancel (cancelCtx b0) w)
       | (Uninitialised t, e0) \<Rightarrow> e0 \<noteq> None)"
proof -
  have "\<forall>e w'. Close h w \<noteq> Returns (Some e, w')"
    by (cases h) simp_all
  moreover have "case fst (New drv args w0) of
         (Initialised b0, e0) \<Rightarrow> e0 = None \<and> Close (Initialised b0) w = Returns (None, cancel (cancelCtx b0) w)
       | (Uninitialised t, e0) \<Rightarrow> e0 \<noteq> None"
    using New_shapes [of drv args w0] by (auto split: prod.splits Browser.splits)
  ultimately show ?thesis
    by simp
qed

theorem Close_returns_nil_witness:
  "fst (fst (New drv_absent [] w_init)) =
     Initialised
       \<lparr>ctx = Derived 5 ByTask (Derived 4 (ByAllocator [DefaultExecAllocatorOptions, DisableGPU, Headless])
                (Derived 3 (ByTimeout 5000000000) Background)),
        cancelCtx = 3, timeout = 5000000000,
        taskCtx = Derived 5 ByTask (Derived 4 (ByAllocator [DefaultExecAllocatorOptions, DisableGPU, Headless])
                (Derived 3 (ByTimeout 5000000000) Background))\<rparr>
   \<and> snd (fst (New drv_absent [] w_init)) = None
   \<and> Close (fst (fst (New drv_absent [] w_init))) (snd (New drv_absent [] w_init)) =
       Returns (None, cancel 3 (snd (New drv_absent [] w_init)))
   \<and> Close (fst (fst (New drv_absent [] w_init))) (cancel 3 (snd (New drv_absent [] w_init))) =
       Returns (None, cancel 3 (cancel 3 (snd (New drv_absent [] w_init))))"
proof -
  define b0 where "b0 =
       \<lparr>ctx = Derived 5 ByTask (Derived 4 (ByAllocator [DefaultExecAllocatorOptions, DisableGPU, Headless])
                (Derived 3 (ByTimeout 5000000000) Background)),
        cancelCtx = 3, timeout = 5000000000,
        taskCtx = Derived 5 ByTask (Derived 4 (ByAllocator [DefaultExecAllocatorOptions, DisableGPU, Headless])
                (Derived 3 (ByTimeout 5000000000) Background))\<rparr>"
  have n: "fst (New drv_absent [] w_init) = (Initialised b0, None)"
    by (simp add: New_def WithTimeout_def NewExecAllocator_def NewContext_def derive_def Run_def cancel_def
        Let_def err_of_def drv_absent_def empty_response_def w_init_def Second_def b0_def)
  have c: "cancelCtx b0 = 3"
    by (simp add: b0_def)
  note t = Close_returns_nil [where b = b0 and w = "snd (New drv_absent [] w_init)"]
  have 1: "Close (Initialised b0) (snd (New drv_absent [] w_init)) =
      Returns (None, cancel (cancelCtx b0) (snd (New drv_absent [] w_init)))"
    using t by blast
  have 2: "Close (Initialised b0) (cancel (cancelCtx b0) (snd (New drv_absent [] w_init))) =
      Returns (None, cancel (cancelCtx b0) (cancel (cancelCtx b0) (snd (New drv_absent [] w_init))))"
    using t by blast
  show ?thesis
    using n 1 2 unfolding c by (simp add: b0_def)
qed

end
